theory Spec2Isabelle
  imports Complex_Main
begin

section \<open>EchoVerse game engine: data model\<close>

text \<open>
  Shallow embedding of \<^verbatim>\<open>src/components/GameEngine.tsx\<close>. The class \<^verbatim>\<open>GameEngine\<close> is a
  record of its private fields; every method is a function from engine to engine. Calls
  to the collaborators (the audio manager, the voice controller and the three callbacks)
  are appended to a trace of effects, and a callback scheduled with \<^verbatim>\<open>setTimeout\<close> is a
  pending timer that a later \<open>Timeout\<close> input fires.

  JavaScript numbers are IEEE doubles. Every coordinate the engine computes is obtained from
  the integers of the catalog by adding or subtracting 1 and by one multiplication with
  0.5, where double arithmetic is exact; coordinates are modelled as exact rationals and
  the counters \<^verbatim>\<open>score\<close>, \<^verbatim>\<open>lives\<close> and \<^verbatim>\<open>currentLevel\<close> as integers.
\<close>

datatype Vector3 = Vector3 (vx: rat) (vy: rat) (vz: rat)

definition multiplyScalar :: "Vector3 \<Rightarrow> rat \<Rightarrow> Vector3" where
  "multiplyScalar v k = Vector3 (vx v * k) (vy v * k) (vz v * k)"

definition distanceToSquared :: "Vector3 \<Rightarrow> Vector3 \<Rightarrow> rat" where
  "distanceToSquared p q =
     (vx p - vx q) * (vx p - vx q) + (vy p - vy q) * (vy p - vy q) + (vz p - vz q) * (vz p - vz q)"

definition distanceTo :: "Vector3 \<Rightarrow> Vector3 \<Rightarrow> real" where
  "distanceTo p q = sqrt (real_of_rat (distanceToSquared p q))"

text \<open>
  The comparisons \<^verbatim>\<open>playerPos.distanceTo(p) <= r\<close> of the source are evaluated without the
  square root; \<open>distance_le_iff\<close> below shows that this is the same comparison.
\<close>

definition distance_le :: "Vector3 \<Rightarrow> Vector3 \<Rightarrow> rat \<Rightarrow> bool" where
  "distance_le p q r = (distanceToSquared p q \<le> r * r)"

datatype mode = practice | adventure

record objective =
  obj_type :: string
  obj_target :: string
  obj_position :: Vector3
  obj_description :: string

record hazard =
  haz_type :: string
  haz_position :: Vector3
  haz_description :: string

text \<open>
  The environments are untyped objects in the source. The practice room has neither
  \<^verbatim>\<open>soundscape\<close> nor \<^verbatim>\<open>objectives\<close> nor \<^verbatim>\<open>hazards\<close>: a missing property is \<open>None\<close>.
\<close>

record environment =
  env_name :: string
  env_description :: string
  env_size :: Vector3
  soundscape :: "string option"
  env_objectives :: "objective list option"
  env_hazards :: "hazard list option"

text \<open>
  The field \<^verbatim>\<open>environment\<close> is \<^verbatim>\<open>null\<close> before a start, an object afterwards, and
  \<^verbatim>\<open>undefined\<close> when the catalog has no entry for the level. The source only tests it for
  truthiness, so both \<^verbatim>\<open>null\<close> and \<^verbatim>\<open>undefined\<close> are \<open>None\<close>.
\<close>

record GameState =
  mode :: mode
  isPlaying :: bool
  score :: int
  lives :: int
  currentLevel :: int
  playerPosition :: Vector3
  playerDirection :: Vector3
  environment :: "environment option"
  objectives :: "objective list"
  inventory :: "string list"

datatype effect =
    Speak string
  | PlaySound string rat
  | CreatePositionalSound string Vector3
  | PlayPositionalSound string rat
  | SetListenerPosition Vector3 Vector3 Vector3
  | StartBackgroundMusic
  | StopBackgroundMusic
  | RepeatLastSpeech
  | Log string
  | StateChange mode bool int int int
  | VisualUpdate rat rat "environment option" "objective list" "hazard list"

record engine =
  gameState :: GameState
  environments :: "environment list"
  currentObjective :: "objective option"
  lastCommand :: string
  effects :: "effect list"
  timers :: nat

text \<open>A method either returns or throws a \<^verbatim>\<open>TypeError\<close>; what it had mutated stays mutated.\<close>

datatype completion = Normal | TypeError

section \<open>Number formatting\<close>

definition digit :: "nat \<Rightarrow> char" where
  "digit d = ''0123456789'' ! d"

function string_of_nat :: "nat \<Rightarrow> string" where
  "string_of_nat n = (if n < 10 then [digit n] else string_of_nat (n div 10) @ [digit (n mod 10)])"
  by pat_completeness auto
termination
  by (relation "measure (\<lambda>n. n)") auto

declare string_of_nat.simps [simp del]

definition string_of_int :: "int \<Rightarrow> string" where
  "string_of_int i = (if i < 0 then ''-'' @ string_of_nat (nat (- i)) else string_of_nat (nat i))"

text \<open>\<^verbatim>\<open>Math.round\<close> rounds half up, as \<^const>\<open>round\<close> does.\<close>

definition Math_round :: "rat \<Rightarrow> int" where
  "Math_round q = round q"

section \<open>The catalog\<close>

definition crystal :: objective where
  "crystal = \<lparr> obj_type = ''find'', obj_target = ''crystal'', obj_position = Vector3 3 0 4,
     obj_description = ''A magical crystal that hums with energy'' \<rparr>"

definition pit :: hazard where
  "pit = \<lparr> haz_type = ''pit'', haz_position = Vector3 (- 2) 0 2,
     haz_description = ''A deep pit with echoing depths'' \<rparr>"

definition exit_objective :: objective where
  "exit_objective = \<lparr> obj_type = ''escape'', obj_target = ''exit'', obj_position = Vector3 0 0 6,
     obj_description = ''The cave exit with fresh air flowing through'' \<rparr>"

definition rockfall :: hazard where
  "rockfall = \<lparr> haz_type = ''rockfall'', haz_position = Vector3 2 0 (- 3),
     haz_description = ''Unstable rocks that could fall'' \<rparr>"

definition echoing_forest :: environment where
  "echoing_forest = \<lparr> env_name = ''The Echoing Forest'',
     env_description = ''You find yourself in a mysterious forest where sounds bounce off ancient trees. The ground crunches softly beneath your feet.'',
     env_size = Vector3 10 0 10, soundscape = Some ''forest'',
     env_objectives = Some [crystal], env_hazards = Some [pit] \<rparr>"

definition whispering_caves :: environment where
  "whispering_caves = \<lparr> env_name = ''The Whispering Caves'',
     env_description = ''Deep underground caverns where every sound creates haunting echoes. Water drips steadily in the distance.'',
     env_size = Vector3 8 0 12, soundscape = Some ''cave'',
     env_objectives = Some [exit_objective], env_hazards = Some [rockfall] \<rparr>"

definition initializeEnvironments :: "environment list" where
  "initializeEnvironments = [echoing_forest, whispering_caves]"

definition practice_room :: environment where
  "practice_room = \<lparr> env_name = ''Practice Room'', env_description = ''A simple room for learning'',
     env_size = Vector3 4 0 4, soundscape = None, env_objectives = None, env_hazards = None \<rparr>"

definition initial_gameState :: "mode \<Rightarrow> GameState" where
  "initial_gameState m = \<lparr> mode = m, isPlaying = False, score = 0, lives = 3, currentLevel = 1,
     playerPosition = Vector3 0 0 0, playerDirection = Vector3 0 0 1, environment = None,
     objectives = [], inventory = [] \<rparr>"

definition constructor :: engine where
  "constructor = \<lparr> gameState = initial_gameState practice, environments = initializeEnvironments,
     currentObjective = None, lastCommand = [], effects = [], timers = 0 \<rparr>"

section \<open>Collaborators\<close>

text \<open>
  \<open>emit\<close> records one call to a collaborator and \<open>modify\<close> is an assignment to fields of
  \<^verbatim>\<open>this.gameState\<close>; the methods below are written with these two.
\<close>

definition emit :: "effect \<Rightarrow> engine \<Rightarrow> engine" where
  "emit e s = s\<lparr>effects := effects s @ [e]\<rparr>"

definition modify :: "(GameState \<Rightarrow> GameState) \<Rightarrow> engine \<Rightarrow> engine" where
  "modify f s = s\<lparr>gameState := f (gameState s)\<rparr>"

definition speak :: "string \<Rightarrow> engine \<Rightarrow> engine" where
  "speak t = emit (Speak t)"

text \<open>\<^verbatim>\<open>playSound(name, volume = 1)\<close>: a call without volume is the call with volume 1.\<close>

definition playSound :: "string \<Rightarrow> rat \<Rightarrow> engine \<Rightarrow> engine" where
  "playSound n v = emit (PlaySound n v)"

definition onLog :: "string \<Rightarrow> engine \<Rightarrow> engine" where
  "onLog t = emit (Log t)"

definition updateState :: "engine \<Rightarrow> engine" where
  "updateState s = (let g = gameState s in
     emit (StateChange (mode g) (isPlaying g) (score g) (lives g) (currentLevel g)) s)"

definition updateVisualState :: "engine \<Rightarrow> engine" where
  "updateVisualState s = (let g = gameState s in
     emit (VisualUpdate (vx (playerPosition g)) (vz (playerPosition g)) (environment g) (objectives g)
       (case environment g of None \<Rightarrow> []
        | Some e \<Rightarrow> (case env_hazards e of None \<Rightarrow> [] | Some hs \<Rightarrow> hs))) s)"

section \<open>Starting a session\<close>

definition nl :: string where
  "nl = [CHR 0x0A]"

definition startPracticeMode :: "engine \<Rightarrow> engine" where
  "startPracticeMode s =
     (let welcomeMessage = nl
        @ ''      Welcome to Practice Mode! This is a safe space to learn the controls.'' @ nl
        @ ''      You are standing in the center of a small room.'' @ nl
        @ ''      Try saying \"go left\", \"go right\", \"go forward\", or \"go back\" to move around.'' @ nl
        @ ''      Say \"look around\" to examine your surroundings.'' @ nl
        @ ''      Say \"help\" if you need assistance.'' @ nl
        @ ''    '';
        s1 = speak welcomeMessage s;
        s2 = onLog ''Started Practice Mode'' s1
      in modify (\<lambda>g. g\<lparr>environment := Some practice_room\<rparr>) s2)"

text \<open>The two \<^verbatim>\<open>forEach\<close> loops of \<^verbatim>\<open>setupSpatialAudio\<close>, over the positions.\<close>

fun createPositionalSounds :: "string \<Rightarrow> Vector3 list \<Rightarrow> nat \<Rightarrow> engine \<Rightarrow> engine" where
  "createPositionalSounds prefix [] index s = s"
| "createPositionalSounds prefix (p # ps) index s =
     createPositionalSounds prefix ps (Suc index)
       (emit (CreatePositionalSound (prefix @ string_of_nat index) p) s)"

definition setupSpatialAudio :: "engine \<Rightarrow> engine" where
  "setupSpatialAudio s =
     (case environment (gameState s) of
        None \<Rightarrow> s
      | Some e \<Rightarrow>
          (let s1 = createPositionalSounds ''objective_'' (map obj_position (objectives (gameState s))) 0 s
           in case env_hazards e of
                None \<Rightarrow> s1
              | Some hs \<Rightarrow> createPositionalSounds ''hazard_'' (map haz_position hs) 0 s1))"

text \<open>
  \<^verbatim>\<open>this.environments[this.gameState.currentLevel - 1]\<close> is \<^verbatim>\<open>undefined\<close> outside the array.
\<close>

definition index :: "'a list \<Rightarrow> int \<Rightarrow> 'a option" where
  "index xs i = (if 0 \<le> i \<and> nat i < length xs then Some (xs ! nat i) else None)"

text \<open>
  \<^verbatim>\<open>startAdventureMode\<close> stores the catalog entry first and then reads its objectives: with
  no entry (or no objectives in it) the read throws after the store.
\<close>

definition startAdventureMode :: "engine \<Rightarrow> completion \<times> engine" where
  "startAdventureMode s =
     (let env = index (environments s) (currentLevel (gameState s) - 1);
          s1 = modify (\<lambda>g. g\<lparr>environment := env\<rparr>) s
      in case env of
           None \<Rightarrow> (TypeError, s1)
         | Some e \<Rightarrow>
             (case env_objectives e of
                None \<Rightarrow> (TypeError, s1)
              | Some objs \<Rightarrow>
                  (let s2 = modify (\<lambda>g. g\<lparr>objectives := objs\<rparr>) s1;
                       s3 = s2\<lparr>currentObjective := index objs 0\<rparr>
                   in case currentObjective s3 of
                        None \<Rightarrow> (TypeError, s3)
                      | Some co \<Rightarrow>
                          (let welcomeMessage = nl
                             @ ''      Welcome to Adventure Mode! '' @ nl
                             @ ''      '' @ env_description e @ nl
                             @ ''      Your objective: '' @ obj_description co @ nl
                             @ ''      Listen carefully to the sounds around you. Good luck!'' @ nl
                             @ ''    '';
                             s4 = speak welcomeMessage s3;
                             s5 = onLog (''Started Adventure Mode - '' @ env_name e) s4
                           in (Normal, setupSpatialAudio s5)))))"

definition startGame :: "mode \<Rightarrow> engine \<Rightarrow> completion \<times> engine" where
  "startGame m s =
     (let s1 = modify (\<lambda>g. g\<lparr>mode := m, isPlaying := True,
                 playerPosition := Vector3 0 0 0, playerDirection := Vector3 0 0 1\<rparr>) s;
          (c, s2) = (if m = practice then (Normal, startPracticeMode s1) else startAdventureMode s1)
      in case c of
           TypeError \<Rightarrow> (TypeError, s2)
         | Normal \<Rightarrow> (Normal, emit StartBackgroundMusic (updateVisualState (updateState s2))))"

section \<open>Ending a session\<close>

definition stopGame :: "engine \<Rightarrow> engine" where
  "stopGame s = updateState (emit StopBackgroundMusic (modify (\<lambda>g. g\<lparr>isPlaying := False\<rparr>) s))"

definition gameOver :: "engine \<Rightarrow> engine" where
  "gameOver s = stopGame (speak (''Game Over! Your final score was '' @ string_of_int (score (gameState s))
     @ ''. Better luck next time!'') s)"

definition gameWon :: "engine \<Rightarrow> engine" where
  "gameWon s = stopGame (speak (''Congratulations! You've completed all levels! Your final score is ''
     @ string_of_int (score (gameState s)) @ ''. You are a true EchoVerse champion!'') s)"

definition resetGame :: "engine \<Rightarrow> engine" where
  "resetGame s =
     (let s1 = s\<lparr>gameState := initial_gameState (mode (gameState s))\<rparr>;
          s2 = emit StopBackgroundMusic s1;
          s3 = speak ''Game reset. Ready for a new adventure!'' s2;
          s4 = onLog ''Game reset'' s3
      in updateVisualState (updateState s4))"

text \<open>
  \<^verbatim>\<open>setTimeout(() => { this.startAdventureMode(); }, 3000)\<close>: the callback is the same closure
  every time, so the pending callbacks are counted.
\<close>

definition completeLevel :: "engine \<Rightarrow> engine" where
  "completeLevel s =
     (let s1 = playSound ''success'' 1 s;
          s2 = speak (''Level '' @ string_of_int (currentLevel (gameState s1)) @ '' completed! Well done!'') s1;
          s3 = modify (\<lambda>g. g\<lparr>score := score g + 500\<rparr>) s2;
          s4 = modify (\<lambda>g. g\<lparr>currentLevel := currentLevel g + 1\<rparr>) s3;
          s5 = (if currentLevel (gameState s4) \<le> int (length (environments s4))
                then s4\<lparr>timers := Suc (timers s4)\<rparr>
                else gameWon s4)
      in updateState s5)"

section \<open>Interactions\<close>

text \<open>\<^verbatim>\<open>this.gameState.objectives.splice(index, 1)\<close>\<close>

definition splice1 :: "nat \<Rightarrow> 'a list \<Rightarrow> 'a list" where
  "splice1 i xs = take i xs @ drop (Suc i) xs"

definition interactWithObjective :: "objective \<Rightarrow> nat \<Rightarrow> engine \<Rightarrow> engine" where
  "interactWithObjective obj i s =
     (let s1 = playSound ''success'' 1 s;
          s2 = speak (''Congratulations! You found '' @ obj_description obj @ ''!'') s1;
          s3 = modify (\<lambda>g. g\<lparr>score := score g + 100\<rparr>) s2;
          s4 = modify (\<lambda>g. g\<lparr>objectives := splice1 i (objectives g)\<rparr>) s3;
          s5 = (if length (objectives (gameState s4)) = 0 then completeLevel s4
                else s4\<lparr>currentObjective := index (objectives (gameState s4)) 0\<rparr>);
          s6 = onLog (''Found: '' @ obj_description obj) s5
      in updateState s6)"

definition interactWithHazard :: "hazard \<Rightarrow> engine \<Rightarrow> engine" where
  "interactWithHazard h s =
     (let s1 = playSound ''danger'' 1 s;
          s2 = speak (''Oh no! You encountered '' @ haz_description h @ ''. You lost a life!'') s1;
          s3 = modify (\<lambda>g. g\<lparr>lives := lives g - 1\<rparr>) s2;
          s4 = (if lives (gameState s3) \<le> 0 then gameOver s3
                else speak (''You have '' @ string_of_int (lives (gameState s3))
                       @ '' lives remaining. You've been returned to the starting position.'')
                     (modify (\<lambda>g. g\<lparr>playerPosition := Vector3 0 0 0\<rparr>) s3));
          s5 = onLog (''Hazard encountered: '' @ haz_description h) s4
      in updateState s5)"

text \<open>The callbacks of the two loops of \<^verbatim>\<open>checkForInteractions\<close>.\<close>

definition objective_callback :: "objective \<Rightarrow> nat \<Rightarrow> engine \<Rightarrow> engine" where
  "objective_callback obj i s =
     (let playerPos = playerPosition (gameState s) in
      if distance_le playerPos (obj_position obj) (3 / 2) then interactWithObjective obj i s
      else if distance_le playerPos (obj_position obj) 3
        then emit (PlayPositionalSound (''objective_'' @ string_of_nat i) (3 / 10)) s
      else s)"

text \<open>
  \<^verbatim>\<open>Array.prototype.forEach\<close> reads the length once and then visits the indices below it
  that the array still has; the callback's \<^verbatim>\<open>splice\<close> shortens the very array being
  visited. The first argument counts the visits that remain, the second is the index.
\<close>

primrec objectives_forEach :: "nat \<Rightarrow> nat \<Rightarrow> engine \<Rightarrow> engine" where
  "objectives_forEach 0 k s = s"
| "objectives_forEach (Suc n) k s =
     objectives_forEach n (Suc k)
       (let objs = objectives (gameState s) in
        if k < length objs then objective_callback (objs ! k) k s else s)"

text \<open>
  \<^verbatim>\<open>playerPos\<close> is the live vector of the game state: after a hazard has sent the player
  back to the origin, the next hazard is measured from the origin.
\<close>

definition hazard_callback :: "hazard \<Rightarrow> nat \<Rightarrow> engine \<Rightarrow> engine" where
  "hazard_callback h i s =
     (let playerPos = playerPosition (gameState s) in
      if distance_le playerPos (haz_position h) (3 / 2) then interactWithHazard h s
      else if distance_le playerPos (haz_position h) 2
        then emit (PlayPositionalSound (''hazard_'' @ string_of_nat i) (4 / 10)) s
      else s)"

fun hazards_forEach :: "hazard list \<Rightarrow> nat \<Rightarrow> engine \<Rightarrow> engine" where
  "hazards_forEach [] k s = s"
| "hazards_forEach (h # hs) k s = hazards_forEach hs (Suc k) (hazard_callback h k s)"

definition checkForInteractions :: "engine \<Rightarrow> engine" where
  "checkForInteractions s =
     (let s1 = objectives_forEach (length (objectives (gameState s))) 0 s
      in case environment (gameState s1) of
           None \<Rightarrow> s1
         | Some e \<Rightarrow> (case env_hazards e of None \<Rightarrow> s1 | Some hs \<Rightarrow> hazards_forEach hs 0 s1))"

section \<open>Movement\<close>

definition getMovementFeedback :: "string \<Rightarrow> engine \<Rightarrow> string" where
  "getMovementFeedback direction s =
     (let pos = playerPosition (gameState s) in
      case environment (gameState s) of
        None \<Rightarrow> ''You moved '' @ direction @ ''. You are now at position ''
                 @ string_of_int (Math_round (vx pos)) @ '', '' @ string_of_int (Math_round (vz pos)) @ ''.''
      | Some env \<Rightarrow>
          ''You moved '' @ direction @ ''. '' @
          (if soundscape env = Some ''forest'' then
             (if \<bar>vx pos\<bar> > 3 \<or> \<bar>vz pos\<bar> > 3 then ''The trees seem denser here. '' else [])
             @ ''Leaves rustle in the wind around you.''
           else if soundscape env = Some ''cave'' then
             (if \<bar>vx pos\<bar> > 2 \<or> \<bar>vz pos\<bar> > 4 then ''Your footsteps echo more dramatically here. '' else [])
             @ ''Water drips steadily somewhere in the darkness.''
           else []))"

text \<open>
  \<^verbatim>\<open>movePlayer\<close> in three pieces: the \<^verbatim>\<open>switch\<close> over the direction (\<open>step_position\<close>), the
  boundary test against half the size (\<open>exceeds\<close>), and what follows an accepted move.
\<close>

definition step_position :: "string \<Rightarrow> Vector3 \<Rightarrow> Vector3" where
  "step_position direction p =
     (if direction = ''left'' then Vector3 (vx p - 1) (vy p) (vz p)
      else if direction = ''right'' then Vector3 (vx p + 1) (vy p) (vz p)
      else if direction = ''forward'' then Vector3 (vx p) (vy p) (vz p + 1)
      else if direction = ''back'' then Vector3 (vx p) (vy p) (vz p - 1)
      else p)"

definition exceeds :: "Vector3 \<Rightarrow> environment \<Rightarrow> bool" where
  "exceeds p env = (let halfSize = multiplyScalar (env_size env) (1 / 2) in
     \<bar>vx p\<bar> > vx halfSize \<or> \<bar>vz p\<bar> > vz halfSize)"

definition accepted_move :: "string \<Rightarrow> engine \<Rightarrow> engine" where
  "accepted_move direction s =
     (let s1 = playSound ''step'' (7 / 10) s;
          s2 = emit (SetListenerPosition (playerPosition (gameState s1)) (playerDirection (gameState s1))
                  (Vector3 0 1 0)) s1;
          s3 = checkForInteractions s2;
          feedback = getMovementFeedback direction s3;
          s4 = (if feedback \<noteq> [] then speak feedback s3 else s3)
      in updateVisualState (updateState s4))"

definition movePlayer :: "string \<Rightarrow> engine \<Rightarrow> engine" where
  "movePlayer direction s =
     (if \<not> isPlaying (gameState s) then s
      else
        (let oldPosition = playerPosition (gameState s);
             s1 = modify (\<lambda>g. g\<lparr>playerPosition := step_position direction (playerPosition g)\<rparr>) s
         in case environment (gameState s1) of
              None \<Rightarrow> accepted_move direction s1
            | Some env \<Rightarrow>
                if exceeds (playerPosition (gameState s1)) env
                then playSound ''danger'' (1 / 2)
                       (speak ''You've reached the edge. You cannot go further in this direction.''
                          (modify (\<lambda>g. g\<lparr>playerPosition := oldPosition\<rparr>) s1))
                else accepted_move direction s1))"

section \<open>The other commands\<close>

definition lookAround :: "engine \<Rightarrow> engine" where
  "lookAround s =
     (if \<not> isPlaying (gameState s) then s
      else
        (let description = ''You listen carefully to your surroundings. '' in
         case environment (gameState s) of
           Some env \<Rightarrow>
             (let description1 = description @ env_description env @ '' '';
                  nearbyObjectives = filter (\<lambda>obj. distance_le (playerPosition (gameState s)) (obj_position obj) 4)
                                       (objectives (gameState s))
              in if length nearbyObjectives > 0
                 then onLog ''Examined surroundings''
                        (speak (description1 @ ''You sense something important nearby. '')
                           (playSound ''echo'' (1 / 2) s))
                 else onLog ''Examined surroundings'' (speak description1 s))
         | None \<Rightarrow>
             onLog ''Examined surroundings''
               (speak (description @ ''You are in a practice room. The walls seem close on all sides.'') s)))"

definition provideHelp :: "engine \<Rightarrow> engine" where
  "provideHelp s =
     (let helpMessage = nl
        @ ''      Available commands: '' @ nl
        @ ''      Say \"go left\", \"go right\", \"go forward\", or \"go back\" to move.'' @ nl
        @ ''      Say \"look around\" to examine your surroundings.'' @ nl
        @ ''      Say \"repeat\" to hear the last message again.'' @ nl
        @ ''      You can also use arrow keys for movement and spacebar to look around.'' @ nl
        @ ''      Your current position is '' @ string_of_int (Math_round (vx (playerPosition (gameState s))))
        @ '', '' @ string_of_int (Math_round (vz (playerPosition (gameState s)))) @ ''.'' @ nl
        @ ''    ''
      in onLog ''Provided help information'' (speak helpMessage s))"

definition mode_name :: "mode \<Rightarrow> string" where
  "mode_name m = (case m of practice \<Rightarrow> ''practice'' | adventure \<Rightarrow> ''adventure'')"

definition toggleMode :: "engine \<Rightarrow> engine" where
  "toggleMode s =
     (if isPlaying (gameState s)
      then speak ''Please stop the current game before changing modes.'' s
      else
        (let s1 = modify (\<lambda>g. g\<lparr>mode := (if mode g = practice then adventure else practice)\<rparr>) s;
             s2 = speak (''Switched to '' @ mode_name (mode (gameState s1)) @ '' mode.'') s1
         in updateState s2))"

definition handleUnknownCommand :: "string \<Rightarrow> engine \<Rightarrow> engine" where
  "handleUnknownCommand command s =
     (let unknownMessage = ''I didn't understand \"'' @ command @ ''\". Say \"help\" for available commands.''
      in onLog (''Unknown command: '' @ command) (speak unknownMessage s))"

section \<open>Command dispatch\<close>

definition always_allowed :: "string list" where
  "always_allowed = [''start game'', ''help'', ''toggle mode'', ''reset game'']"

definition processCommand :: "string \<Rightarrow> engine \<Rightarrow> completion \<times> engine" where
  "processCommand command s =
     (let s1 = onLog (''Processing: '' @ command) (s\<lparr>lastCommand := command\<rparr>) in
      if \<not> isPlaying (gameState s1) \<and> command \<notin> set always_allowed
      then (Normal, speak ''Please start a game first.'' s1)
      else if command = ''start game'' then startGame (mode (gameState s1)) s1
      else if command = ''go left'' then (Normal, movePlayer ''left'' s1)
      else if command = ''go right'' then (Normal, movePlayer ''right'' s1)
      else if command = ''go forward'' then (Normal, movePlayer ''forward'' s1)
      else if command = ''go back'' then (Normal, movePlayer ''back'' s1)
      else if command = ''look around'' then (Normal, lookAround s1)
      else if command = ''help'' then (Normal, provideHelp s1)
      else if command = ''repeat'' then (Normal, emit RepeatLastSpeech s1)
      else if command = ''toggle mode'' then (Normal, toggleMode s1)
      else if command = ''reset game'' then (Normal, resetGame s1)
      else if command = ''stop game'' then (Normal, stopGame s1)
      else (Normal, handleUnknownCommand command s1))"

section \<open>Runs of the engine\<close>

text \<open>
  The engine is driven by commands, by the two public methods the page calls directly, and
  by the timer. A pending callback runs \<^verbatim>\<open>startAdventureMode\<close> between two commands,
  never inside one. An exception reaches the caller and the engine stays as it was left.
\<close>

datatype input = Command string | StartGame mode | ResetGame | Timeout

definition timeout :: "engine \<Rightarrow> completion \<times> engine" where
  "timeout s = (if timers s = 0 then (Normal, s) else startAdventureMode (s\<lparr>timers := timers s - 1\<rparr>))"

fun react :: "input \<Rightarrow> engine \<Rightarrow> completion \<times> engine" where
  "react (Command c) s = processCommand c s"
| "react (StartGame m) s = startGame m s"
| "react ResetGame s = (Normal, resetGame s)"
| "react Timeout s = timeout s"

definition step :: "engine \<Rightarrow> input \<Rightarrow> engine" where
  "step s i = snd (react i s)"

definition run :: "input list \<Rightarrow> engine" where
  "run is = foldl step constructor is"

section \<open>The state without the trace\<close>

text \<open>
  No method reads the trace of effects, \<^verbatim>\<open>lastCommand\<close>, or (outside the statement that
  has just written it) \<^verbatim>\<open>currentObjective\<close>. The game state, the catalog and the pending
  timers therefore evolve on their own; the functions of this section are the methods with
  the collaborator calls left out, and \<open>proj_step\<close> proves that they compute the projection
  of the engine.
\<close>

record core =
  c_game :: GameState
  c_environments :: "environment list"
  c_timers :: nat

definition proj :: "engine \<Rightarrow> core" where
  "proj s = \<lparr> c_game = gameState s, c_environments = environments s, c_timers = timers s \<rparr>"

definition modify_c :: "(GameState \<Rightarrow> GameState) \<Rightarrow> core \<Rightarrow> core" where
  "modify_c f c = c\<lparr>c_game := f (c_game c)\<rparr>"

definition startAdventureMode_c :: "core \<Rightarrow> completion \<times> core" where
  "startAdventureMode_c c =
     (let env = index (c_environments c) (currentLevel (c_game c) - 1);
          c1 = modify_c (\<lambda>g. g\<lparr>environment := env\<rparr>) c
      in case env of
           None \<Rightarrow> (TypeError, c1)
         | Some e \<Rightarrow>
             (case env_objectives e of
                None \<Rightarrow> (TypeError, c1)
              | Some objs \<Rightarrow>
                  (let c2 = modify_c (\<lambda>g. g\<lparr>objectives := objs\<rparr>) c1
                   in (if objs = [] then TypeError else Normal, c2))))"

definition startGame_c :: "mode \<Rightarrow> core \<Rightarrow> completion \<times> core" where
  "startGame_c m c =
     (let c1 = modify_c (\<lambda>g. g\<lparr>mode := m, isPlaying := True,
                 playerPosition := Vector3 0 0 0, playerDirection := Vector3 0 0 1\<rparr>) c
      in if m = practice then (Normal, modify_c (\<lambda>g. g\<lparr>environment := Some practice_room\<rparr>) c1)
         else startAdventureMode_c c1)"

definition stopGame_c :: "core \<Rightarrow> core" where
  "stopGame_c = modify_c (\<lambda>g. g\<lparr>isPlaying := False\<rparr>)"

definition resetGame_c :: "core \<Rightarrow> core" where
  "resetGame_c c = c\<lparr>c_game := initial_gameState (mode (c_game c))\<rparr>"

definition completeLevel_c :: "core \<Rightarrow> core" where
  "completeLevel_c c =
     (let c1 = modify_c (\<lambda>g. g\<lparr>score := score g + 500\<rparr>) c;
          c2 = modify_c (\<lambda>g. g\<lparr>currentLevel := currentLevel g + 1\<rparr>) c1
      in if currentLevel (c_game c2) \<le> int (length (c_environments c2))
         then c2\<lparr>c_timers := Suc (c_timers c2)\<rparr>
         else stopGame_c c2)"

definition interactWithObjective_c :: "nat \<Rightarrow> core \<Rightarrow> core" where
  "interactWithObjective_c i c =
     (let c1 = modify_c (\<lambda>g. g\<lparr>score := score g + 100\<rparr>) c;
          c2 = modify_c (\<lambda>g. g\<lparr>objectives := splice1 i (objectives g)\<rparr>) c1
      in if length (objectives (c_game c2)) = 0 then completeLevel_c c2 else c2)"

definition interactWithHazard_c :: "core \<Rightarrow> core" where
  "interactWithHazard_c c =
     (let c1 = modify_c (\<lambda>g. g\<lparr>lives := lives g - 1\<rparr>) c
      in if lives (c_game c1) \<le> 0 then stopGame_c c1
         else modify_c (\<lambda>g. g\<lparr>playerPosition := Vector3 0 0 0\<rparr>) c1)"

definition objective_callback_c :: "objective \<Rightarrow> nat \<Rightarrow> core \<Rightarrow> core" where
  "objective_callback_c obj i c =
     (if distance_le (playerPosition (c_game c)) (obj_position obj) (3 / 2)
      then interactWithObjective_c i c else c)"

primrec objectives_forEach_c :: "nat \<Rightarrow> nat \<Rightarrow> core \<Rightarrow> core" where
  "objectives_forEach_c 0 k c = c"
| "objectives_forEach_c (Suc n) k c =
     objectives_forEach_c n (Suc k)
       (let objs = objectives (c_game c) in
        if k < length objs then objective_callback_c (objs ! k) k c else c)"

definition hazard_callback_c :: "hazard \<Rightarrow> core \<Rightarrow> core" where
  "hazard_callback_c h c =
     (if distance_le (playerPosition (c_game c)) (haz_position h) (3 / 2)
      then interactWithHazard_c c else c)"

fun hazards_forEach_c :: "hazard list \<Rightarrow> core \<Rightarrow> core" where
  "hazards_forEach_c [] c = c"
| "hazards_forEach_c (h # hs) c = hazards_forEach_c hs (hazard_callback_c h c)"

definition checkForInteractions_c :: "core \<Rightarrow> core" where
  "checkForInteractions_c c =
     (let c1 = objectives_forEach_c (length (objectives (c_game c))) 0 c
      in case environment (c_game c1) of
           None \<Rightarrow> c1
         | Some e \<Rightarrow> (case env_hazards e of None \<Rightarrow> c1 | Some hs \<Rightarrow> hazards_forEach_c hs c1))"

definition movePlayer_c :: "string \<Rightarrow> core \<Rightarrow> core" where
  "movePlayer_c direction c =
     (if \<not> isPlaying (c_game c) then c
      else
        (let c1 = modify_c (\<lambda>g. g\<lparr>playerPosition := step_position direction (playerPosition g)\<rparr>) c
         in case environment (c_game c1) of
              None \<Rightarrow> checkForInteractions_c c1
            | Some env \<Rightarrow>
                if exceeds (playerPosition (c_game c1)) env then c
                else checkForInteractions_c c1))"

definition toggleMode_c :: "core \<Rightarrow> core" where
  "toggleMode_c c =
     (if isPlaying (c_game c) then c
      else modify_c (\<lambda>g. g\<lparr>mode := (if mode g = practice then adventure else practice)\<rparr>) c)"

definition processCommand_c :: "string \<Rightarrow> core \<Rightarrow> completion \<times> core" where
  "processCommand_c command c =
     (if \<not> isPlaying (c_game c) \<and> command \<notin> set always_allowed then (Normal, c)
      else if command = ''start game'' then startGame_c (mode (c_game c)) c
      else if command = ''go left'' then (Normal, movePlayer_c ''left'' c)
      else if command = ''go right'' then (Normal, movePlayer_c ''right'' c)
      else if command = ''go forward'' then (Normal, movePlayer_c ''forward'' c)
      else if command = ''go back'' then (Normal, movePlayer_c ''back'' c)
      else if command = ''toggle mode'' then (Normal, toggleMode_c c)
      else if command = ''reset game'' then (Normal, resetGame_c c)
      else if command = ''stop game'' then (Normal, stopGame_c c)
      else (Normal, c))"

definition timeout_c :: "core \<Rightarrow> completion \<times> core" where
  "timeout_c c = (if c_timers c = 0 then (Normal, c) else startAdventureMode_c (c\<lparr>c_timers := c_timers c - 1\<rparr>))"

fun react_c :: "input \<Rightarrow> core \<Rightarrow> completion \<times> core" where
  "react_c (Command cmd) c = processCommand_c cmd c"
| "react_c (StartGame m) c = startGame_c m c"
| "react_c ResetGame c = (Normal, resetGame_c c)"
| "react_c Timeout c = timeout_c c"

definition step_c :: "core \<Rightarrow> input \<Rightarrow> core" where
  "step_c c i = snd (react_c i c)"

section \<open>Classifying inputs, and what one pass of a loop may change\<close>

definition vocabulary :: "string list" where
  "vocabulary = [''start game'', ''go left'', ''go right'', ''go forward'', ''go back'',
     ''look around'', ''help'', ''repeat'', ''toggle mode'', ''reset game'', ''stop game'']"

definition is_move :: "input \<Rightarrow> bool" where
  "is_move i = (i = Command ''go left'' \<or> i = Command ''go right''
     \<or> i = Command ''go forward'' \<or> i = Command ''go back'')"

definition is_reset :: "input \<Rightarrow> bool" where
  "is_reset i = (i = Command ''reset game'' \<or> i = ResetGame)"

definition is_start :: "input \<Rightarrow> bool" where
  "is_start i = (case i of Command c \<Rightarrow> c = ''start game'' | StartGame m \<Rightarrow> True
     | ResetGame \<Rightarrow> False | Timeout \<Rightarrow> False)"




definition objective_pass :: "core \<Rightarrow> core \<Rightarrow> bool" where
  "objective_pass c c' =
     (let g = c_game c; g' = c_game c' in
      c_environments c' = c_environments c \<and> c_timers c \<le> c_timers c'
      \<and> lives g' = lives g \<and> playerPosition g' = playerPosition g
      \<and> playerDirection g' = playerDirection g \<and> environment g' = environment g
      \<and> mode g' = mode g \<and> inventory g' = inventory g
      \<and> set (objectives g') \<subseteq> set (objectives g)
      \<and> length (objectives g') \<le> length (objectives g)
      \<and> score g' = score g + 100 * (int (length (objectives g)) - int (length (objectives g')))
                     + 500 * (currentLevel g' - currentLevel g)
      \<and> (isPlaying g' = isPlaying g \<or> \<not> isPlaying g')
      \<and> (c' = c \<or> length (objectives g') < length (objectives g))
      \<and> (currentLevel g' = currentLevel g \<and> (isPlaying g' = isPlaying g)
           \<or> currentLevel g' = currentLevel g + 1 \<and> objectives g \<noteq> [] \<and> objectives g' = []
              \<and> isPlaying g' = (isPlaying g \<and> currentLevel g' \<le> int (length (c_environments c)))))"

definition hazard_pass :: "core \<Rightarrow> core \<Rightarrow> bool" where
  "hazard_pass c c' =
     (let g = c_game c; g' = c_game c' in
      c_environments c' = c_environments c \<and> c_timers c' = c_timers c
      \<and> score g' = score g \<and> objectives g' = objectives g
      \<and> currentLevel g' = currentLevel g \<and> environment g' = environment g
      \<and> mode g' = mode g \<and> inventory g' = inventory g
      \<and> playerDirection g' = playerDirection g
      \<and> lives g' \<le> lives g
      \<and> (isPlaying g' = isPlaying g \<or> \<not> isPlaying g')
      \<and> (playerPosition g' = playerPosition g \<or> playerPosition g' = Vector3 0 0 0))"

definition move_pass :: "core \<Rightarrow> core \<Rightarrow> bool" where
  "move_pass c c' =
     (let g = c_game c; g' = c_game c' in
      c_environments c' = c_environments c \<and> c_timers c \<le> c_timers c'
      \<and> environment g' = environment g \<and> mode g' = mode g
      \<and> lives g' \<le> lives g
      \<and> set (objectives g') \<subseteq> set (objectives g)
      \<and> length (objectives g') \<le> length (objectives g)
      \<and> score g' = score g + 100 * (int (length (objectives g)) - int (length (objectives g')))
                     + 500 * (currentLevel g' - currentLevel g)
      \<and> (isPlaying g' = isPlaying g \<or> \<not> isPlaying g')
      \<and> (currentLevel g' = currentLevel g
           \<or> currentLevel g' = currentLevel g + 1 \<and> objectives g \<noteq> [] \<and> objectives g' = []))"

section \<open>Play-throughs used below\<close>

definition enter_forest :: "input list" where
  "enter_forest = [Command ''toggle mode'', Command ''start game'']"

definition walk_into_pit :: "input list" where
  "walk_into_pit = [Command ''go left'', Command ''go left'', Command ''go forward'']"

definition approach_crystal :: "input list" where
  "approach_crystal = [Command ''go right'', Command ''go right'', Command ''go right'',
     Command ''go forward'', Command ''go forward'']"

definition walk_to_crystal :: "input list" where
  "walk_to_crystal = approach_crystal @ [Command ''go forward'']"

text \<open>
  A catalog that the engine never has: a level with two objectives one step apart.
\<close>

definition north_gem :: objective where
  "north_gem = \<lparr> obj_type = ''find'', obj_target = ''north gem'', obj_position = Vector3 1 0 1,
     obj_description = ''A gem to the north'' \<rparr>"

definition south_gem :: objective where
  "south_gem = \<lparr> obj_type = ''find'', obj_target = ''south gem'', obj_position = Vector3 1 0 (- 1),
     obj_description = ''A gem to the south'' \<rparr>"

definition twin_level :: environment where
  "twin_level = \<lparr> env_name = ''Twin Gems'', env_description = ''Two gems lie one step apart.'',
     env_size = Vector3 10 0 10, soundscape = Some ''forest'',
     env_objectives = Some [north_gem, south_gem], env_hazards = Some [] \<rparr>"

definition twin_engine :: engine where
  "twin_engine = constructor\<lparr>environments := [twin_level]\<rparr>"

definition second_session :: "input list" where
  "second_session = enter_forest @ walk_into_pit @ walk_into_pit @ walk_into_pit
     @ [Command ''start game'', Command ''go left'', Command ''go left'']"

definition approach_exit :: "input list" where
  "approach_exit = enter_forest @ walk_to_crystal
     @ [Timeout, Command ''go left'', Command ''go left'', Command ''go left'', Command ''go forward'']"


section \<open>Projection lemmas\<close>

lemma proj_simps [simp]:
  "c_game (proj s) = gameState s" "c_environments (proj s) = environments s"
  "c_timers (proj s) = timers s"
  by (simp_all add: proj_def)

lemma proj_emit [simp]: "proj (emit e s) = proj s"
  by (simp add: proj_def emit_def)

lemma proj_modify [simp]: "proj (modify f s) = modify_c f (proj s)"
  by (simp add: proj_def modify_def modify_c_def)

lemma game_modify_c [simp]: "c_game (modify_c f c) = f (c_game c)"
  "c_environments (modify_c f c) = c_environments c" "c_timers (modify_c f c) = c_timers c"
  by (simp_all add: modify_c_def)

lemma gameState_emit [simp]: "gameState (emit e s) = gameState s"
  "environments (emit e s) = environments s" "timers (emit e s) = timers s"
  by (simp_all add: emit_def)

lemma gameState_modify [simp]: "gameState (modify f s) = f (gameState s)"
  "environments (modify f s) = environments s" "timers (modify f s) = timers s"
  by (simp_all add: modify_def)

lemma proj_prims [simp]:
  "proj (speak t s) = proj s" "proj (playSound n v s) = proj s" "proj (onLog t s) = proj s"
  "proj (updateState s) = proj s" "proj (updateVisualState s) = proj s"
  by (simp_all add: speak_def playSound_def onLog_def updateState_def updateVisualState_def Let_def)

lemma proj_fields [simp]:
  "proj (s\<lparr>lastCommand := l\<rparr>) = proj s" "proj (s\<lparr>currentObjective := co\<rparr>) = proj s"
  "proj (s\<lparr>effects := es\<rparr>) = proj s"
  "proj (s\<lparr>timers := n\<rparr>) = (proj s)\<lparr>c_timers := n\<rparr>"
  "proj (s\<lparr>gameState := g\<rparr>) = (proj s)\<lparr>c_game := g\<rparr>"
  by (simp_all add: proj_def)

lemma gameState_prims [simp]:
  "gameState (speak t s) = gameState s" "gameState (playSound n v s) = gameState s"
  "gameState (onLog t s) = gameState s" "gameState (updateState s) = gameState s"
  "gameState (updateVisualState s) = gameState s"
  "environments (speak t s) = environments s" "environments (playSound n v s) = environments s"
  "environments (onLog t s) = environments s" "environments (updateState s) = environments s"
  "environments (updateVisualState s) = environments s"
  "timers (speak t s) = timers s" "timers (playSound n v s) = timers s"
  "timers (onLog t s) = timers s" "timers (updateState s) = timers s"
  "timers (updateVisualState s) = timers s"
  by (simp_all add: speak_def playSound_def onLog_def updateState_def updateVisualState_def Let_def)

lemma proj_createPositionalSounds [simp]: "proj (createPositionalSounds p ps k s) = proj s"
  by (induction ps arbitrary: k s) simp_all

lemma proj_setupSpatialAudio [simp]: "proj (setupSpatialAudio s) = proj s"
  by (simp add: setupSpatialAudio_def Let_def split: option.splits)

lemma proj_startPracticeMode [simp]:
  "proj (startPracticeMode s) = modify_c (\<lambda>g. g\<lparr>environment := Some practice_room\<rparr>) (proj s)"
  by (simp add: startPracticeMode_def Let_def)

lemma proj_startAdventureMode:
  "apsnd proj (startAdventureMode s) = startAdventureMode_c (proj s)"
  by (simp add: startAdventureMode_def startAdventureMode_c_def Let_def index_def
      split: option.splits)


lemma proj_startGame: "apsnd proj (startGame m s) = startGame_c m (proj s)"
proof (cases "m = practice")
  case True
  then show ?thesis by (simp add: startGame_def startGame_c_def Let_def)
next
  case False
  let ?s1 = "modify (\<lambda>g. g\<lparr>mode := m, isPlaying := True,
                 playerPosition := Vector3 0 0 0, playerDirection := Vector3 0 0 1\<rparr>) s"
  have "apsnd proj (startAdventureMode ?s1) = startAdventureMode_c (proj ?s1)"
    by (rule proj_startAdventureMode)
  with False show ?thesis
    by (cases "startAdventureMode ?s1")
       (auto simp add: startGame_def startGame_c_def Let_def split: completion.splits)
qed

lemma proj_stopGame [simp]: "proj (stopGame s) = stopGame_c (proj s)"
  by (simp add: stopGame_def stopGame_c_def)

lemma proj_gameOver [simp]: "proj (gameOver s) = stopGame_c (proj s)"
  by (simp add: gameOver_def)

lemma proj_gameWon [simp]: "proj (gameWon s) = stopGame_c (proj s)"
  by (simp add: gameWon_def)

lemma proj_resetGame [simp]: "proj (resetGame s) = resetGame_c (proj s)"
  by (simp add: resetGame_def resetGame_c_def Let_def)

lemma proj_if: "proj (if b then s else t) = (if b then proj s else proj t)"
  by simp

lemma proj_completeLevel [simp]: "proj (completeLevel s) = completeLevel_c (proj s)"
  by (simp add: completeLevel_def completeLevel_c_def Let_def)

lemma proj_interactWithObjective [simp]:
  "proj (interactWithObjective obj i s) = interactWithObjective_c i (proj s)"
  by (simp add: interactWithObjective_def interactWithObjective_c_def Let_def)

lemma proj_interactWithHazard [simp]:
  "proj (interactWithHazard h s) = interactWithHazard_c (proj s)"
  by (simp add: interactWithHazard_def interactWithHazard_c_def Let_def)

lemma proj_objective_callback [simp]:
  "proj (objective_callback obj i s) = objective_callback_c obj i (proj s)"
  by (simp add: objective_callback_def objective_callback_c_def Let_def)

lemma proj_hazard_callback [simp]:
  "proj (hazard_callback h i s) = hazard_callback_c h (proj s)"
  by (simp add: hazard_callback_def hazard_callback_c_def Let_def)

lemma gameState_proj: "gameState s = c_game (proj s)"
  by simp

lemma proj_objectives_forEach [simp]:
  "proj (objectives_forEach n k s) = objectives_forEach_c n k (proj s)"
proof (induction n arbitrary: k s)
  case 0
  show ?case by simp
next
  case (Suc n)
  show ?case by (simp add: Suc.IH Let_def)
qed

lemma proj_hazards_forEach [simp]:
  "proj (hazards_forEach hs k s) = hazards_forEach_c hs (proj s)"
  by (induction hs arbitrary: k s) simp_all

lemma proj_checkForInteractions [simp]:
  "proj (checkForInteractions s) = checkForInteractions_c (proj s)"
proof -
  let ?s1 = "objectives_forEach (length (objectives (gameState s))) 0 s"
  have g: "gameState ?s1 = c_game (objectives_forEach_c (length (objectives (gameState s))) 0 (proj s))"
    by (simp add: gameState_proj [of ?s1] del: proj_simps)
  show ?thesis
    by (simp add: checkForInteractions_def checkForInteractions_c_def Let_def g
        split: option.splits)
qed

lemma proj_accepted_move [simp]:
  "proj (accepted_move d s) = checkForInteractions_c (proj s)"
  by (simp add: accepted_move_def Let_def)

lemma proj_movePlayer [simp]: "proj (movePlayer d s) = movePlayer_c d (proj s)"
  by (simp add: movePlayer_def movePlayer_c_def Let_def split: option.splits)

lemma proj_lookAround [simp]: "proj (lookAround s) = proj s"
  by (simp add: lookAround_def Let_def split: option.splits)

lemma proj_provideHelp [simp]: "proj (provideHelp s) = proj s"
  by (simp add: provideHelp_def Let_def)

lemma proj_toggleMode [simp]: "proj (toggleMode s) = toggleMode_c (proj s)"
  by (simp add: toggleMode_def toggleMode_c_def Let_def)

lemma proj_handleUnknownCommand [simp]: "proj (handleUnknownCommand c s) = proj s"
  by (simp add: handleUnknownCommand_def Let_def)

lemma proj_processCommand:
  "apsnd proj (processCommand cmd s) = processCommand_c cmd (proj s)"
proof -
  let ?s1 = "onLog (''Processing: '' @ cmd) (s\<lparr>lastCommand := cmd\<rparr>)"
  have p: "proj ?s1 = proj s" by simp
  have g: "gameState ?s1 = gameState s" by simp
  have sg: "apsnd proj (startGame (mode (gameState s)) ?s1) = startGame_c (mode (gameState s)) (proj s)"
    using proj_startGame [of "mode (gameState s)" ?s1] by (simp only: p)
  have rest: "apsnd proj (processCommand cmd s) = processCommand_c cmd (proj s)"
    if "cmd \<noteq> ''look around''" "cmd \<noteq> ''help''" "cmd \<noteq> ''repeat''"
    unfolding processCommand_def processCommand_c_def Let_def g using that
    by (simp only: sg p apsnd_conv if_distrib [of "apsnd proj"] proj_movePlayer proj_emit
        proj_toggleMode proj_resetGame proj_stopGame proj_handleUnknownCommand proj_prims
        proj_simps proj_fields if_False)
  have la: "apsnd proj (processCommand ''look around'' s) = processCommand_c ''look around'' (proj s)"
    by (simp add: processCommand_def processCommand_c_def Let_def always_allowed_def)
  have he: "apsnd proj (processCommand ''help'' s) = processCommand_c ''help'' (proj s)"
    by (simp add: processCommand_def processCommand_c_def Let_def always_allowed_def)
  have re: "apsnd proj (processCommand ''repeat'' s) = processCommand_c ''repeat'' (proj s)"
    by (simp add: processCommand_def processCommand_c_def Let_def always_allowed_def)
  show ?thesis
    using rest la he re by blast
qed

lemma proj_timeout: "apsnd proj (timeout s) = timeout_c (proj s)"
  using proj_startAdventureMode [of "s\<lparr>timers := timers s - 1\<rparr>"]
  by (simp add: timeout_def timeout_c_def)

lemma proj_react: "apsnd proj (react i s) = react_c i (proj s)"
  by (cases i) (simp_all add: proj_processCommand proj_startGame proj_timeout)

lemma proj_step: "proj (step s i) = step_c (proj s) i"
proof -
  have "snd (apsnd proj (react i s)) = snd (react_c i (proj s))"
    by (simp only: proj_react)
  then show ?thesis
    by (simp add: step_def step_c_def)
qed

lemma proj_foldl: "proj (foldl step s is) = foldl step_c (proj s) is"
  by (induction "is" arbitrary: s) (simp_all add: proj_step)

lemma proj_run: "proj (run is) = foldl step_c (proj constructor) is"
  by (simp add: run_def proj_foldl)

section \<open>What the interactions change\<close>


lemma stopGame_c_game [simp]:
  "c_game (stopGame_c c) = (c_game c)\<lparr>isPlaying := False\<rparr>"
  "c_environments (stopGame_c c) = c_environments c" "c_timers (stopGame_c c) = c_timers c"
  by (simp_all add: stopGame_c_def)

lemma completeLevel_c_game:
  "c_game (completeLevel_c c) =
     (c_game c)\<lparr>score := score (c_game c) + 500, currentLevel := currentLevel (c_game c) + 1,
        isPlaying := (if currentLevel (c_game c) + 1 \<le> int (length (c_environments c))
                      then isPlaying (c_game c) else False)\<rparr>"
  by (simp add: completeLevel_c_def Let_def)

lemma completeLevel_c_rest [simp]:
  "c_environments (completeLevel_c c) = c_environments c"
  "c_timers (completeLevel_c c) =
     (if currentLevel (c_game c) + 1 \<le> int (length (c_environments c))
      then Suc (c_timers c) else c_timers c)"
  by (simp_all add: completeLevel_c_def Let_def)

lemma length_splice1: "i < length xs \<Longrightarrow> length (splice1 i xs) = length xs - 1"
  by (simp add: splice1_def)

lemma set_splice1: "set (splice1 i xs) \<subseteq> set xs"
  by (auto simp add: splice1_def dest: in_set_takeD in_set_dropD)

lemma interactWithObjective_c_game:
  "c_game (interactWithObjective_c i c) =
     (let g = c_game c; objs = splice1 i (objectives g) in
      if objs = []
      then g\<lparr>score := score g + 600, objectives := [], currentLevel := currentLevel g + 1,
             isPlaying := (if currentLevel g + 1 \<le> int (length (c_environments c))
                           then isPlaying g else False)\<rparr>
      else g\<lparr>score := score g + 100, objectives := objs\<rparr>)"
  by (simp add: interactWithObjective_c_def Let_def completeLevel_c_game)

lemma interactWithObjective_c_environments [simp]:
  "c_environments (interactWithObjective_c i c) = c_environments c"
  by (simp add: interactWithObjective_c_def Let_def)

lemma interactWithHazard_c_game:
  "c_game (interactWithHazard_c c) =
     (let g = c_game c in
      if lives g - 1 \<le> 0 then g\<lparr>lives := lives g - 1, isPlaying := False\<rparr>
      else g\<lparr>lives := lives g - 1, playerPosition := Vector3 0 0 0\<rparr>)"
  by (simp add: interactWithHazard_c_def Let_def)

lemma interactWithHazard_c_rest [simp]:
  "c_environments (interactWithHazard_c c) = c_environments c"
  "c_timers (interactWithHazard_c c) = c_timers c"
  by (simp_all add: interactWithHazard_c_def Let_def)

subsection \<open>The objectives loop\<close>

lemma objectives_forEach_c_nil:
  "objectives (c_game c) = [] \<Longrightarrow> objectives_forEach_c n k c = c"
  by (induction n arbitrary: k) simp_all

lemma objective_pass_refl: "objective_pass c c"
  by (simp add: objective_pass_def)

lemma objective_pass_interact:
  assumes "i < length (objectives (c_game c))"
  shows "objective_pass c (interactWithObjective_c i c)"
proof -
  have l: "length (splice1 i (objectives (c_game c))) = length (objectives (c_game c)) - 1"
    using assms by (rule length_splice1)
  have s: "set (splice1 i (objectives (c_game c))) \<subseteq> set (objectives (c_game c))"
    by (rule set_splice1)
  have t: "c_timers c \<le> c_timers (interactWithObjective_c i c)"
    by (simp add: interactWithObjective_c_def Let_def)
  from assms have ne: "objectives (c_game c) \<noteq> []" by auto
  show ?thesis
  proof (cases "splice1 i (objectives (c_game c)) = []")
    case True
    with l assms t ne show ?thesis
      by (auto simp add: objective_pass_def interactWithObjective_c_game Let_def)
  next
    case False
    with l s assms t ne show ?thesis
      by (auto simp add: objective_pass_def interactWithObjective_c_game Let_def)
  qed
qed

lemma objective_pass_callback:
  "i < length (objectives (c_game c)) \<Longrightarrow> objective_pass c (objective_callback_c obj i c)"
  by (simp add: objective_callback_c_def objective_pass_interact objective_pass_refl)

lemma objective_pass_trans:
  assumes "objective_pass a b" "objective_pass b c"
  shows "objective_pass a c"
proof -
  from assms(2) consider "c = b" | "length (objectives (c_game c)) < length (objectives (c_game b))"
    by (auto simp add: objective_pass_def Let_def)
  then show ?thesis
  proof cases
    case 1
    with assms(1) show ?thesis by simp
  next
    case 2
    then have bne: "objectives (c_game b) \<noteq> []" by auto
    with assms(1) have lb: "currentLevel (c_game b) = currentLevel (c_game a)"
      "isPlaying (c_game b) = isPlaying (c_game a)"
      by (auto simp add: objective_pass_def Let_def)
    from assms lb bne show ?thesis
      unfolding objective_pass_def Let_def
      by (elim conjE) (intro conjI; (simp; fail | force | linarith | blast)?)
  qed
qed

lemma objective_pass_forEach: "objective_pass c (objectives_forEach_c n k c)"
proof (induction n arbitrary: k c)
  case 0
  show ?case by (simp add: objective_pass_refl)
next
  case (Suc n)
  show ?case
  proof (cases "k < length (objectives (c_game c))")
    case True
    have "objective_pass c (objective_callback_c (objectives (c_game c) ! k) k c)"
      using True by (rule objective_pass_callback)
    moreover have "objective_pass (objective_callback_c (objectives (c_game c) ! k) k c)
        (objectives_forEach_c n (Suc k) (objective_callback_c (objectives (c_game c) ! k) k c))"
      by (rule Suc.IH)
    ultimately show ?thesis
      using True by (simp add: Let_def objective_pass_trans)
  next
    case False
    then show ?thesis by (simp add: Let_def Suc.IH)
  qed
qed


subsection \<open>The hazards loop\<close>

lemma hazard_pass_refl: "hazard_pass c c"
  by (simp add: hazard_pass_def)

lemma hazard_pass_trans: "hazard_pass a b \<Longrightarrow> hazard_pass b c \<Longrightarrow> hazard_pass a c"
  unfolding hazard_pass_def Let_def
  by (elim conjE) (intro conjI; (simp; fail | force | linarith | blast)?)

lemma hazard_pass_callback: "hazard_pass c (hazard_callback_c h c)"
  by (simp add: hazard_callback_c_def hazard_pass_def interactWithHazard_c_game Let_def)

lemma hazard_pass_forEach: "hazard_pass c (hazards_forEach_c hs c)"
proof (induction hs arbitrary: c)
  case Nil
  show ?case by (simp add: hazard_pass_refl)
next
  case (Cons h hs)
  have "hazard_pass c (hazard_callback_c h c)" by (rule hazard_pass_callback)
  moreover have "hazard_pass (hazard_callback_c h c) (hazards_forEach_c hs (hazard_callback_c h c))"
    by (rule Cons.IH)
  ultimately show ?case by (simp add: hazard_pass_trans)
qed

subsection \<open>One move\<close>

lemma move_pass_refl: "move_pass c c"
  by (simp add: move_pass_def)

lemma move_pass_checkForInteractions:
  assumes "c_environments c1 = c_environments c" "c_timers c1 = c_timers c"
    "environment (c_game c1) = environment (c_game c)" "mode (c_game c1) = mode (c_game c)"
    "lives (c_game c1) = lives (c_game c)" "objectives (c_game c1) = objectives (c_game c)"
    "score (c_game c1) = score (c_game c)" "isPlaying (c_game c1) = isPlaying (c_game c)"
    "currentLevel (c_game c1) = currentLevel (c_game c)"
  shows "move_pass c (checkForInteractions_c c1)"
proof -
  let ?c2 = "objectives_forEach_c (length (objectives (c_game c1))) 0 c1"
  have o: "objective_pass c1 ?c2" by (rule objective_pass_forEach)
  have h: "hazard_pass ?c2 (hazards_forEach_c hs ?c2)" for hs by (rule hazard_pass_forEach)
  have m2: "move_pass c ?c2"
    using o assms unfolding objective_pass_def move_pass_def Let_def
    by (elim conjE) (intro conjI; (simp; fail | force | linarith | blast)?)
  have m3: "move_pass c (hazards_forEach_c hs ?c2)" for hs
    using o h [of hs] assms unfolding objective_pass_def hazard_pass_def move_pass_def Let_def
    by (elim conjE) (intro conjI; (simp; fail | force | linarith | blast)?)
  show ?thesis
    by (simp add: checkForInteractions_c_def Let_def m2 m3 split: option.splits)
qed

lemma move_pass_movePlayer: "move_pass c (movePlayer_c d c)"
  by (simp add: movePlayer_c_def Let_def move_pass_refl move_pass_checkForInteractions
      split: option.splits)

lemma timers_proj: "timers s = c_timers (proj s)"
  by simp

lemma run_snoc: "run (is @ [i]) = step (run is) i"
  by (simp add: run_def)

section \<open>Starting, and the other commands\<close>

lemma startAdventureMode_c_game:
  "c_game (snd (startAdventureMode_c c)) =
     (case index (c_environments c) (currentLevel (c_game c) - 1) of
        None \<Rightarrow> (c_game c)\<lparr>environment := None\<rparr>
      | Some e \<Rightarrow> (case env_objectives e of
                     None \<Rightarrow> (c_game c)\<lparr>environment := Some e\<rparr>
                   | Some objs \<Rightarrow> (c_game c)\<lparr>environment := Some e, objectives := objs\<rparr>))"
  by (simp add: startAdventureMode_c_def Let_def split: option.splits)

lemma startAdventureMode_c_rest [simp]:
  "c_environments (snd (startAdventureMode_c c)) = c_environments c"
  "c_timers (snd (startAdventureMode_c c)) = c_timers c"
  by (simp_all add: startAdventureMode_c_def Let_def split: option.splits)

lemma startAdventureMode_c_frame [simp]:
  "score (c_game (snd (startAdventureMode_c c))) = score (c_game c)"
  "lives (c_game (snd (startAdventureMode_c c))) = lives (c_game c)"
  "currentLevel (c_game (snd (startAdventureMode_c c))) = currentLevel (c_game c)"
  "isPlaying (c_game (snd (startAdventureMode_c c))) = isPlaying (c_game c)"
  "mode (c_game (snd (startAdventureMode_c c))) = mode (c_game c)"
  "playerPosition (c_game (snd (startAdventureMode_c c))) = playerPosition (c_game c)"
  "playerDirection (c_game (snd (startAdventureMode_c c))) = playerDirection (c_game c)"
  by (simp_all add: startAdventureMode_c_game split: option.splits)

lemma startGame_c_frame [simp]:
  "score (c_game (snd (startGame_c m c))) = score (c_game c)"
  "lives (c_game (snd (startGame_c m c))) = lives (c_game c)"
  "currentLevel (c_game (snd (startGame_c m c))) = currentLevel (c_game c)"
  "isPlaying (c_game (snd (startGame_c m c)))"
  "mode (c_game (snd (startGame_c m c))) = m"
  "playerPosition (c_game (snd (startGame_c m c))) = Vector3 0 0 0"
  "playerDirection (c_game (snd (startGame_c m c))) = Vector3 0 0 1"
  "c_environments (snd (startGame_c m c)) = c_environments c"
  "c_timers (snd (startGame_c m c)) = c_timers c"
  by (simp_all add: startGame_c_def Let_def)

lemma timeout_c_frame [simp]:
  "score (c_game (snd (timeout_c c))) = score (c_game c)"
  "lives (c_game (snd (timeout_c c))) = lives (c_game c)"
  "currentLevel (c_game (snd (timeout_c c))) = currentLevel (c_game c)"
  "isPlaying (c_game (snd (timeout_c c))) = isPlaying (c_game c)"
  "mode (c_game (snd (timeout_c c))) = mode (c_game c)"
  "playerPosition (c_game (snd (timeout_c c))) = playerPosition (c_game c)"
  "playerDirection (c_game (snd (timeout_c c))) = playerDirection (c_game c)"
  "c_environments (snd (timeout_c c)) = c_environments c"
  by (simp_all add: timeout_c_def)

lemma toggleMode_c_frame [simp]:
  "score (c_game (toggleMode_c c)) = score (c_game c)"
  "lives (c_game (toggleMode_c c)) = lives (c_game c)"
  "currentLevel (c_game (toggleMode_c c)) = currentLevel (c_game c)"
  "isPlaying (c_game (toggleMode_c c)) = isPlaying (c_game c)"
  "playerPosition (c_game (toggleMode_c c)) = playerPosition (c_game c)"
  "objectives (c_game (toggleMode_c c)) = objectives (c_game c)"
  "environment (c_game (toggleMode_c c)) = environment (c_game c)"
  by (simp_all add: toggleMode_c_def)

lemma resetGame_c_game [simp]:
  "c_game (resetGame_c c) = initial_gameState (mode (c_game c))"
  "c_environments (resetGame_c c) = c_environments c" "c_timers (resetGame_c c) = c_timers c"
  by (simp_all add: resetGame_c_def)

text \<open>Which method a command reaches.\<close>

lemma processCommand_c_go:
  "snd (processCommand_c ''go left'' c) = movePlayer_c ''left'' c"
  "snd (processCommand_c ''go right'' c) = movePlayer_c ''right'' c"
  "snd (processCommand_c ''go forward'' c) = movePlayer_c ''forward'' c"
  "snd (processCommand_c ''go back'' c) = movePlayer_c ''back'' c"
  by (simp_all add: processCommand_c_def movePlayer_c_def always_allowed_def)

lemma processCommand_c_other:
  assumes "cmd \<notin> {''go left'', ''go right'', ''go forward'', ''go back''}" "cmd \<noteq> ''reset game''"
  shows "snd (processCommand_c cmd c) \<in>
     {c, snd (startGame_c (mode (c_game c)) c), toggleMode_c c, stopGame_c c}"
  using assms by (simp add: processCommand_c_def)

lemma processCommand_c_reset: "snd (processCommand_c ''reset game'' c) = resetGame_c c"
  by (simp add: processCommand_c_def always_allowed_def)

lemma step_c_move:
  "is_move i \<Longrightarrow> move_pass c (step_c c i)"
  unfolding is_move_def
  by (elim disjE) (simp_all add: step_c_def processCommand_c_go move_pass_movePlayer)

lemma step_c_reset: "is_reset i \<Longrightarrow> c_game (step_c c i) = initial_gameState (mode (c_game c))"
  by (auto simp add: is_reset_def step_c_def processCommand_c_reset)

lemma step_c_other:
  assumes "\<not> is_move i" "\<not> is_reset i"
  shows "score (c_game (step_c c i)) = score (c_game c)
    \<and> lives (c_game (step_c c i)) = lives (c_game c)
    \<and> currentLevel (c_game (step_c c i)) = currentLevel (c_game c)"
proof (cases i)
  case (Command cmd)
  with assms have "cmd \<notin> {''go left'', ''go right'', ''go forward'', ''go back''}"
    "cmd \<noteq> ''reset game''"
    by (auto simp add: is_move_def is_reset_def)
  then have "snd (processCommand_c cmd c) \<in>
     {c, snd (startGame_c (mode (c_game c)) c), toggleMode_c c, stopGame_c c}"
    by (rule processCommand_c_other)
  then consider "snd (processCommand_c cmd c) = c"
    | "snd (processCommand_c cmd c) = snd (startGame_c (mode (c_game c)) c)"
    | "snd (processCommand_c cmd c) = toggleMode_c c"
    | "snd (processCommand_c cmd c) = stopGame_c c"
    by blast
  then show ?thesis
    using Command by cases (simp_all add: step_c_def)
next
  case (StartGame m)
  then show ?thesis by (simp add: step_c_def)
next
  case ResetGame
  with assms show ?thesis by (simp add: is_reset_def)
next
  case Timeout
  then show ?thesis by (simp add: step_c_def)
qed


lemma effects_emit [simp]: "effects (emit e s) = effects s @ [e]"
  by (simp add: emit_def)

lemma effects_modify [simp]: "effects (modify f s) = effects s"
  by (simp add: modify_def)

lemma effects_prims [simp]:
  "effects (speak t s) = effects s @ [Speak t]"
  "effects (playSound n v s) = effects s @ [PlaySound n v]"
  "effects (onLog t s) = effects s @ [Log t]"
  "effects (updateState s) = effects s @ [StateChange (mode (gameState s)) (isPlaying (gameState s))
      (score (gameState s)) (lives (gameState s)) (currentLevel (gameState s))]"
  by (simp_all add: speak_def playSound_def onLog_def updateState_def Let_def)

lemma stopGame_fields [simp]:
  "gameState (stopGame s) = (gameState s)\<lparr>isPlaying := False\<rparr>"
  "effects (stopGame s) = effects s @ [StopBackgroundMusic,
     StateChange (mode (gameState s)) False (score (gameState s)) (lives (gameState s))
       (currentLevel (gameState s))]"
  "timers (stopGame s) = timers s" "environments (stopGame s) = environments s"
  by (simp_all add: stopGame_def)

lemma step_c_idle_move:
  "is_move i \<Longrightarrow> \<not> isPlaying (c_game c) \<Longrightarrow> step_c c i = c"
  unfolding is_move_def
  by (elim disjE) (simp_all add: step_c_def processCommand_c_go movePlayer_c_def)

section \<open>Distances and hazards\<close>

lemma distance_le_iff:
  assumes "0 \<le> r"
  shows "distance_le p q r \<longleftrightarrow> distanceTo p q \<le> real_of_rat r"
proof -
  have nn: "0 \<le> distanceToSquared p q"
    by (simp add: distanceToSquared_def)
  have "distanceTo p q \<le> real_of_rat r \<longleftrightarrow> sqrt (real_of_rat (distanceToSquared p q)) \<le> sqrt (real_of_rat r * real_of_rat r)"
    using assms by (simp add: distanceTo_def)
  also have "\<dots> \<longleftrightarrow> real_of_rat (distanceToSquared p q) \<le> real_of_rat (r * r)"
    by (simp only: real_sqrt_le_iff of_rat_mult)
  also have "\<dots> \<longleftrightarrow> distanceToSquared p q \<le> r * r"
    by (rule of_rat_less_eq)
  finally show ?thesis by (simp add: distance_le_def)
qed

lemma interactWithHazard_c_lives:
  "lives (c_game (interactWithHazard_c c)) = lives (c_game c) - 1"
  by (simp add: interactWithHazard_c_game Let_def)

lemma hazards_forEach_c_hit:
  "\<exists>h\<in>set hs. distance_le (playerPosition (c_game c)) (haz_position h) (3 / 2) \<Longrightarrow>
   lives (c_game (hazards_forEach_c hs c)) \<le> lives (c_game c) - 1"
proof (induction hs arbitrary: c)
  case Nil
  then show ?case by simp
next
  case (Cons h hs)
  show ?case
  proof (cases "distance_le (playerPosition (c_game c)) (haz_position h) (3 / 2)")
    case True
    have "hazard_pass (interactWithHazard_c c) (hazards_forEach_c hs (interactWithHazard_c c))"
      by (rule hazard_pass_forEach)
    then have "lives (c_game (hazards_forEach_c hs (interactWithHazard_c c)))
        \<le> lives (c_game (interactWithHazard_c c))"
      by (simp add: hazard_pass_def Let_def)
    with True show ?thesis
      by (simp add: hazard_callback_c_def interactWithHazard_c_lives)
  next
    case False
    with Cons.prems have "\<exists>h\<in>set hs. distance_le (playerPosition (c_game c)) (haz_position h) (3 / 2)"
      by auto
    from Cons.IH [OF this] False show ?thesis
      by (simp add: hazard_callback_c_def)
  qed
qed

lemma hazards_forEach_c_single:
  "distance_le (playerPosition (c_game c)) (haz_position h) (3 / 2) \<Longrightarrow>
   lives (c_game (hazards_forEach_c [h] c)) = lives (c_game c) - 1"
  by (simp add: hazard_callback_c_def interactWithHazard_c_lives)

lemma movePlayer_c_hazard:
  assumes "isPlaying (c_game c)" "environment (c_game c) = Some e" "env_hazards e = Some hs"
    "\<not> exceeds (step_position d (playerPosition (c_game c))) e"
    "\<exists>h\<in>set hs. distance_le (step_position d (playerPosition (c_game c))) (haz_position h) (3 / 2)"
  shows "lives (c_game (movePlayer_c d c)) \<le> lives (c_game c) - 1"
    and "length hs = 1 \<Longrightarrow> lives (c_game (movePlayer_c d c)) = lives (c_game c) - 1"
    and "environment (c_game (movePlayer_c d c)) = Some e"
proof -
  let ?c1 = "modify_c (\<lambda>g. g\<lparr>playerPosition := step_position d (playerPosition g)\<rparr>) c"
  let ?c2 = "objectives_forEach_c (length (objectives (c_game ?c1))) 0 ?c1"
  have m: "movePlayer_c d c = hazards_forEach_c hs ?c2"
  proof -
    have o: "objective_pass ?c1 ?c2" by (rule objective_pass_forEach)
    then have "environment (c_game ?c2) = Some e"
      using assms(2) by (simp add: objective_pass_def Let_def)
    then have "checkForInteractions_c ?c1 = hazards_forEach_c hs ?c2"
      using assms(3) by (simp add: checkForInteractions_c_def Let_def)
    then show ?thesis
      using assms(1,2,4) by (simp add: movePlayer_c_def Let_def)
  qed
  have o: "objective_pass ?c1 ?c2" by (rule objective_pass_forEach)
  then have p2: "playerPosition (c_game ?c2) = step_position d (playerPosition (c_game c))"
    and l2: "lives (c_game ?c2) = lives (c_game c)"
    and e2: "environment (c_game ?c2) = Some e"
    using assms(2) by (simp_all add: objective_pass_def Let_def)
  from assms(5) p2 have hit: "\<exists>h\<in>set hs. distance_le (playerPosition (c_game ?c2)) (haz_position h) (3 / 2)"
    by simp
  from hazards_forEach_c_hit [OF hit] l2 show "lives (c_game (movePlayer_c d c)) \<le> lives (c_game c) - 1"
    by (simp only: m)
  have "hazard_pass ?c2 (hazards_forEach_c hs ?c2)" by (rule hazard_pass_forEach)
  with e2 show "environment (c_game (movePlayer_c d c)) = Some e"
    by (simp only: m) (simp add: hazard_pass_def Let_def)
  show "lives (c_game (movePlayer_c d c)) = lives (c_game c) - 1" if "length hs = 1"
  proof -
    from that obtain h where hs: "hs = [h]" by (cases hs) auto
    with hit have "distance_le (playerPosition (c_game ?c2)) (haz_position h) (3 / 2)" by simp
    from hazards_forEach_c_single [OF this] l2 hs show ?thesis by (simp only: m)
  qed
qed

section \<open>Rejected moves, lives and the length of the objective list\<close>

text \<open>
  A move whose candidate position exceeds a half-extent changes nothing but the trace: the
  edge narration and the danger sound at volume 0.5. A move that starts inside the
  half-extents ends inside them. Lives are restored by a reset only, are lost in moves only,
  and a hazard interaction that leaves none stops the session. An objective interaction
  shortens the list by exactly one.
\<close>

lemma movePlayer_rejected:
  assumes "isPlaying (gameState s)" "environment (gameState s) = Some e"
    "exceeds (step_position d (playerPosition (gameState s))) e"
  shows "movePlayer d s =
     s\<lparr>effects := effects s @ [Speak ''You've reached the edge. You cannot go further in this direction.'',
                                PlaySound ''danger'' (1 / 2)]\<rparr>"
  using assms by (simp add: movePlayer_def Let_def playSound_def speak_def emit_def modify_def)

lemma movePlayer_stays_inside:
  assumes "environment (gameState s) = Some e" "\<not> exceeds (playerPosition (gameState s)) e"
    "\<not> exceeds (Vector3 0 0 0) e"
  shows "\<not> exceeds (playerPosition (gameState (movePlayer d s))) e"
proof -
  have g: "gameState (movePlayer d s) = c_game (movePlayer_c d (proj s))"
    by (simp add: gameState_proj [of "movePlayer d s"] del: proj_simps)
  let ?c = "proj s"
  let ?c1 = "modify_c (\<lambda>g. g\<lparr>playerPosition := step_position d (playerPosition g)\<rparr>) ?c"
  let ?c2 = "objectives_forEach_c (length (objectives (c_game ?c1))) 0 ?c1"
  have o: "objective_pass ?c1 ?c2" by (rule objective_pass_forEach)
  have h: "hazard_pass ?c2 (hazards_forEach_c hs ?c2)" for hs by (rule hazard_pass_forEach)
  have p2: "playerPosition (c_game ?c2) = step_position d (playerPosition (gameState s))"
    using o by (simp add: objective_pass_def Let_def)
  have p3: "playerPosition (c_game (hazards_forEach_c hs ?c2)) = step_position d (playerPosition (gameState s))
      \<or> playerPosition (c_game (hazards_forEach_c hs ?c2)) = Vector3 0 0 0" for hs
    using h [of hs] p2 by (auto simp add: hazard_pass_def Let_def)
  have e2: "environment (c_game ?c2) = Some e"
    using o assms(1) by (simp add: objective_pass_def Let_def)
  have chk: "playerPosition (c_game (checkForInteractions_c ?c1)) = step_position d (playerPosition (gameState s))
      \<or> playerPosition (c_game (checkForInteractions_c ?c1)) = Vector3 0 0 0"
    using p2 p3 e2 by (simp add: checkForInteractions_c_def Let_def split: option.splits)
  show ?thesis
  proof (cases "isPlaying (gameState s) \<and> \<not> exceeds (step_position d (playerPosition (gameState s))) e")
    case True
    then have "movePlayer_c d ?c = checkForInteractions_c ?c1"
      using assms(1) by (simp add: movePlayer_c_def Let_def)
    with chk True assms(3) show ?thesis unfolding g by auto
  next
    case False
    then have "movePlayer_c d ?c = ?c"
      using assms(1) by (auto simp add: movePlayer_c_def Let_def)
    with assms(2) show ?thesis unfolding g by simp
  qed
qed

lemma lives_over_one_input:
  "(is_reset i \<longrightarrow> lives (gameState (step s i)) = 3)
   \<and> (\<not> is_reset i \<longrightarrow> lives (gameState (step s i)) \<le> lives (gameState s))
   \<and> (\<not> is_reset i \<and> \<not> is_move i \<longrightarrow> lives (gameState (step s i)) = lives (gameState s))"
proof -
  have g: "gameState (step s i) = c_game (step_c (proj s) i)"
    by (simp add: gameState_proj [of "step s i"] proj_step del: proj_simps)
  have r: "is_reset i \<Longrightarrow> lives (c_game (step_c (proj s) i)) = 3"
    by (simp add: step_c_reset initial_gameState_def)
  have m: "is_move i \<Longrightarrow> lives (c_game (step_c (proj s) i)) \<le> lives (gameState s)"
    using step_c_move [of i "proj s"] by (simp add: move_pass_def Let_def)
  have ot: "\<not> is_reset i \<Longrightarrow> \<not> is_move i \<Longrightarrow>
      lives (c_game (step_c (proj s) i)) = lives (gameState s)"
    using step_c_other [of i "proj s"] by simp
  show ?thesis
    unfolding g using r m ot by (cases "is_move i") auto
qed

lemma stopped_session_ignores_commands:
  assumes "\<not> isPlaying (gameState s)" "cmd \<notin> set always_allowed"
  shows "gameState (snd (processCommand cmd s)) = gameState s"
    and "timers (snd (processCommand cmd s)) = timers s"
  using assms by (simp_all add: processCommand_def Let_def)

lemma hazard_stops_at_zero:
  "lives (gameState (interactWithHazard h s)) \<le> 0 \<Longrightarrow> \<not> isPlaying (gameState (interactWithHazard h s))"
proof -
  have g: "gameState (interactWithHazard h s) = c_game (interactWithHazard_c (proj s))"
    by (simp add: gameState_proj [of "interactWithHazard h s"] del: proj_simps)
  show "lives (gameState (interactWithHazard h s)) \<le> 0 \<Longrightarrow> \<not> isPlaying (gameState (interactWithHazard h s))"
    unfolding g by (auto simp add: interactWithHazard_c_game Let_def split: if_splits)
qed


section \<open>Completion of a command, and the callback with a catalog entry\<close>

lemma fst_react: "fst (react i s) = fst (react_c i (proj s))"
proof -
  have "fst (apsnd proj (react i s)) = fst (react_c i (proj s))"
    by (simp only: proj_react)
  then show ?thesis by simp
qed



lemma startAdventureMode_c_entry:
  assumes "index (c_environments c) (currentLevel (c_game c) - 1) = Some e"
    "env_objectives e = Some objs" "objs \<noteq> []"
  shows "startAdventureMode_c c =
     (Normal, modify_c (\<lambda>g. g\<lparr>objectives := objs\<rparr>) (modify_c (\<lambda>g. g\<lparr>environment := Some e\<rparr>) c))"
  using assms by (simp add: startAdventureMode_c_def Let_def)


lemma step_c_start:
  assumes "is_start i"
  shows "step_c c i = snd (startGame_c (mode (c_game (step_c c i))) c)"
proof (cases i)
  case (Command cmd)
  with assms have "cmd = ''start game''" by (simp add: is_start_def)
  with Command show ?thesis
    by (simp add: step_c_def processCommand_c_def always_allowed_def)
next
  case (StartGame m)
  then show ?thesis by (simp add: step_c_def)
next
  case ResetGame
  with assms show ?thesis by (simp add: is_start_def)
next
  case Timeout
  with assms show ?thesis by (simp add: is_start_def)
qed

lemma fire_c:
  assumes "0 < c_timers c" "index (c_environments c) (currentLevel (c_game c) - 1) = Some e"
    "env_objectives e = Some objs" "objs \<noteq> []"
  shows "react_c Timeout c =
     (Normal, modify_c (\<lambda>g. g\<lparr>objectives := objs\<rparr>)
                (modify_c (\<lambda>g. g\<lparr>environment := Some e\<rparr>) (c\<lparr>c_timers := c_timers c - 1\<rparr>)))"
proof -
  have "startAdventureMode_c (c\<lparr>c_timers := c_timers c - 1\<rparr>) =
     (Normal, modify_c (\<lambda>g. g\<lparr>objectives := objs\<rparr>)
                (modify_c (\<lambda>g. g\<lparr>environment := Some e\<rparr>) (c\<lparr>c_timers := c_timers c - 1\<rparr>)))"
    using assms(2-4) by (intro startAdventureMode_c_entry) simp_all
  with assms(1) show ?thesis by (simp add: timeout_c_def)
qed

section \<open>The shipped catalog: one objective per level\<close>









subsection \<open>An accepted move with at most one objective left\<close>



subsection \<open>What a level with neighbouring objectives would show\<close>

text \<open>
  \<^verbatim>\<open>interactWithObjective\<close> splices the list that \<^verbatim>\<open>forEach\<close> is visiting. With two
  objectives in range that are neighbours in the list, the second moves to index 0 and is
  not visited in that move. No run of the engine has such a list (\<open>shipped_run\<close>); the
  engine below is built with another catalog to show the loop on it.
\<close>

lemma neighbour_objective_skipped:
  "(let g = gameState (foldl step twin_engine [StartGame adventure, Command ''go right''])
    in playerPosition g = Vector3 1 0 0
       \<and> distance_le (playerPosition g) (obj_position north_gem) (3 / 2)
       \<and> distance_le (playerPosition g) (obj_position south_gem) (3 / 2)
       \<and> objectives g = [south_gem] \<and> score g = 100 \<and> currentLevel g = 1)"
  unfolding gameState_proj proj_foldl by code_simp

section \<open>Claims\<close>

text \<open>
  C1, as stated, makes the stale callback a no-op after a reset. The engine never cancels
  the callback and never checks which session it belongs to: after level 1 is cleared and
  the game is reset, the callback is still pending, and when it fires it installs the forest
  and its objectives into the idle session.
\<close>

theorem C1_counterexample:
  "timers (run (enter_forest @ walk_to_crystal @ [Command ''reset game''])) = 1
   \<and> environment (gameState (run (enter_forest @ walk_to_crystal @ [Command ''reset game'']))) = None
   \<and> objectives (gameState (run (enter_forest @ walk_to_crystal @ [Command ''reset game'']))) = []
   \<and> environment (gameState (run (enter_forest @ walk_to_crystal @ [Command ''reset game'', Timeout])))
        = Some echoing_forest
   \<and> objectives (gameState (run (enter_forest @ walk_to_crystal @ [Command ''reset game'', Timeout])))
        = [crystal]"
  unfolding gameState_proj timers_proj proj_run by code_simp

text \<open>
  C1, amended. Neither a reset nor a new start cancels the scheduled callback: the number
  of pending callbacks is the same after either. A callback that fires while the catalog has
  an entry with at least one objective for the level current at that moment completes
  \<^verbatim>\<open>startAdventureMode\<close> for that level: score, lives, level, mode, the playing flag and the
  position stay as they are, the environment becomes that entry and the objectives are
  copied from it again. After a reset this means that level 2 does not start: the level is
  1, the session is not playing, score and lives have their initial values; but the
  callback is not a no-op, for the first level of the catalog and its objectives are loaded.
  After a new start the session is playing at the origin with score, lives and level as
  before the start, and the callback loads the entry of that level and its objectives again.
\<close>

theorem C1_stale_callback:
  assumes "0 < timers s"
  shows "(index (environments s) (currentLevel (gameState s) - 1) = Some e
          \<and> env_objectives e = Some objs \<and> objs \<noteq> [] \<longrightarrow>
            fst (react Timeout s) = Normal
            \<and> (let g = gameState s; g' = gameState (step s Timeout) in
                 timers (step s Timeout) = timers s - 1
                 \<and> score g' = score g \<and> lives g' = lives g \<and> currentLevel g' = currentLevel g
                 \<and> isPlaying g' = isPlaying g \<and> mode g' = mode g
                 \<and> playerPosition g' = playerPosition g
                 \<and> environment g' = Some e \<and> objectives g' = objs))
     \<and> (is_reset i \<and> index (environments s) 0 = Some e0
          \<and> env_objectives e0 = Some objs0 \<and> objs0 \<noteq> [] \<longrightarrow>
            timers (step s i) = timers s
            \<and> fst (react Timeout (step s i)) = Normal
            \<and> (let g' = gameState (step (step s i) Timeout) in
                 currentLevel g' = 1 \<and> \<not> isPlaying g' \<and> score g' = 0 \<and> lives g' = 3
                 \<and> playerPosition g' = Vector3 0 0 0
                 \<and> environment g' = Some e0 \<and> objectives g' = objs0))
     \<and> (is_start i \<and> index (environments s) (currentLevel (gameState s) - 1) = Some e
          \<and> env_objectives e = Some objs \<and> objs \<noteq> [] \<longrightarrow>
            timers (step s i) = timers s
            \<and> fst (react Timeout (step s i)) = Normal
            \<and> (let g = gameState s; g' = gameState (step (step s i) Timeout) in
                 isPlaying g' \<and> score g' = score g \<and> lives g' = lives g
                 \<and> currentLevel g' = currentLevel g
                 \<and> playerPosition g' = Vector3 0 0 0
                 \<and> environment g' = Some e \<and> objectives g' = objs))
     \<and> (is_reset i \<or> is_start i \<longrightarrow> timers (step s i) = timers s)"
proof -
  have gs: "gameState (step x Timeout) = c_game (snd (react_c Timeout (proj x)))" for x
    by (simp add: gameState_proj [of "step x Timeout"] proj_step step_c_def del: proj_simps)
  have ts: "timers (step x Timeout) = c_timers (snd (react_c Timeout (proj x)))" for x
    by (simp add: timers_proj [of "step x Timeout"] proj_step step_c_def del: proj_simps)
  have tp: "timers (step s i) = c_timers (step_c (proj s) i)"
    by (simp add: timers_proj [of "step s i"] proj_step del: proj_simps)
  have first: "fst (react Timeout s) = Normal
            \<and> (let g = gameState s; g' = gameState (step s Timeout) in
                 timers (step s Timeout) = timers s - 1
                 \<and> score g' = score g \<and> lives g' = lives g \<and> currentLevel g' = currentLevel g
                 \<and> isPlaying g' = isPlaying g \<and> mode g' = mode g
                 \<and> playerPosition g' = playerPosition g
                 \<and> environment g' = Some e \<and> objectives g' = objs)"
    if "index (environments s) (currentLevel (gameState s) - 1) = Some e
          \<and> env_objectives e = Some objs \<and> objs \<noteq> []"
  proof -
    have "react_c Timeout (proj s) =
      (Normal, modify_c (\<lambda>g. g\<lparr>objectives := objs\<rparr>)
                (modify_c (\<lambda>g. g\<lparr>environment := Some e\<rparr>) ((proj s)\<lparr>c_timers := c_timers (proj s) - 1\<rparr>)))"
      using assms that by (intro fire_c) simp_all
    then show ?thesis
      unfolding fst_react gs ts Let_def by simp
  qed
  have second: "timers (step s i) = timers s
            \<and> fst (react Timeout (step s i)) = Normal
            \<and> (let g' = gameState (step (step s i) Timeout) in
                 currentLevel g' = 1 \<and> \<not> isPlaying g' \<and> score g' = 0 \<and> lives g' = 3
                 \<and> playerPosition g' = Vector3 0 0 0
                 \<and> environment g' = Some e0 \<and> objectives g' = objs0)"
    if h: "is_reset i \<and> index (environments s) 0 = Some e0
          \<and> env_objectives e0 = Some objs0 \<and> objs0 \<noteq> []"
  proof -
    from h have rs: "step_c (proj s) i = resetGame_c (proj s)"
      by (auto simp add: is_reset_def step_c_def processCommand_c_reset)
    have ps: "proj (step s i) = resetGame_c (proj s)"
      by (simp add: proj_step rs)
    have "react_c Timeout (resetGame_c (proj s)) =
      (Normal, modify_c (\<lambda>g. g\<lparr>objectives := objs0\<rparr>)
                (modify_c (\<lambda>g. g\<lparr>environment := Some e0\<rparr>)
                   ((resetGame_c (proj s))\<lparr>c_timers := c_timers (resetGame_c (proj s)) - 1\<rparr>)))"
      using assms h by (intro fire_c) (simp_all add: initial_gameState_def)
    then show ?thesis
      unfolding fst_react gs tp ps rs Let_def by (simp add: initial_gameState_def)
  qed
  have third: "timers (step s i) = timers s
            \<and> fst (react Timeout (step s i)) = Normal
            \<and> (let g = gameState s; g' = gameState (step (step s i) Timeout) in
                 isPlaying g' \<and> score g' = score g \<and> lives g' = lives g
                 \<and> currentLevel g' = currentLevel g
                 \<and> playerPosition g' = Vector3 0 0 0
                 \<and> environment g' = Some e \<and> objectives g' = objs)"
    if h: "is_start i \<and> index (environments s) (currentLevel (gameState s) - 1) = Some e
          \<and> env_objectives e = Some objs \<and> objs \<noteq> []"
  proof -
    let ?c = "step_c (proj s) i"
    from h have st: "?c = snd (startGame_c (mode (c_game ?c)) (proj s))"
      by (intro step_c_start) simp
    have fr: "c_timers ?c = timers s" "c_environments ?c = environments s"
      "currentLevel (c_game ?c) = currentLevel (gameState s)"
      "score (c_game ?c) = score (gameState s)" "lives (c_game ?c) = lives (gameState s)"
      "isPlaying (c_game ?c)" "playerPosition (c_game ?c) = Vector3 0 0 0"
      by (subst st, simp)+
    have ps: "proj (step s i) = ?c" by (simp add: proj_step)
    have "react_c Timeout ?c =
      (Normal, modify_c (\<lambda>g. g\<lparr>objectives := objs\<rparr>)
                (modify_c (\<lambda>g. g\<lparr>environment := Some e\<rparr>) (?c\<lparr>c_timers := c_timers ?c - 1\<rparr>)))"
      using assms h fr by (intro fire_c) simp_all
    then show ?thesis
      unfolding fst_react gs tp ps Let_def using fr by simp
  qed
  have fourth: "timers (step s i) = timers s" if h: "is_reset i \<or> is_start i"
  proof -
    from h show ?thesis
    proof
      assume "is_reset i"
      then have "step_c (proj s) i = resetGame_c (proj s)"
        by (auto simp add: is_reset_def step_c_def processCommand_c_reset)
      then show ?thesis unfolding tp by simp
    next
      assume "is_start i"
      then have "step_c (proj s) i
          = snd (startGame_c (mode (c_game (step_c (proj s) i))) (proj s))"
        by (rule step_c_start)
      then have "c_timers (step_c (proj s) i) = c_timers (proj s)"
        by (subst (asm) eq_commute) (erule subst, simp)
      then show ?thesis unfolding tp by simp
    qed
  qed
  from first second third fourth show ?thesis by blast
qed


theorem C1_witness:
  "0 < timers (run (enter_forest @ walk_to_crystal))
   \<and> is_reset (Command ''reset game'') \<and> is_start (Command ''start game'')
   \<and> currentLevel (gameState (run (enter_forest @ walk_to_crystal))) = 2
   \<and> index (environments (run (enter_forest @ walk_to_crystal))) 0 = Some echoing_forest
   \<and> index (environments (run (enter_forest @ walk_to_crystal))) (2 - 1) = Some whispering_caves
   \<and> (let g' = gameState (step (run (enter_forest @ walk_to_crystal)) Timeout)
      in currentLevel g' = 2 \<and> isPlaying g' \<and> score g' = 600
         \<and> environment g' = Some whispering_caves \<and> objectives g' = [exit_objective])
   \<and> fst (react Timeout (step (run (enter_forest @ walk_to_crystal)) (Command ''reset game''))) = Normal
   \<and> (let g' = gameState (step (step (run (enter_forest @ walk_to_crystal)) (Command ''reset game''))
                    Timeout)
      in currentLevel g' = 1 \<and> \<not> isPlaying g' \<and> score g' = 0 \<and> lives g' = 3
         \<and> environment g' = Some echoing_forest \<and> objectives g' = [crystal])
   \<and> (let g' = gameState (step (step (run (enter_forest @ walk_to_crystal)) (Command ''start game''))
                    Timeout)
      in currentLevel g' = 2 \<and> isPlaying g' \<and> score g' = 600 \<and> lives g' = 3
         \<and> environment g' = Some whispering_caves \<and> objectives g' = [exit_objective])"
proof -
  let ?s = "run (enter_forest @ walk_to_crystal)"
  have a: "0 < timers ?s \<and> currentLevel (gameState ?s) = 2 \<and> score (gameState ?s) = 600
    \<and> lives (gameState ?s) = 3 \<and> isPlaying (gameState ?s)"
    unfolding gameState_proj timers_proj proj_run by code_simp
  have b: "environments ?s = initializeEnvironments"
  proof -
    have "c_environments (proj ?s) = initializeEnvironments"
      unfolding proj_run by code_simp
    then show ?thesis by simp
  qed
  have r: "is_reset (Command ''reset game'')" "is_start (Command ''start game'')"
    by (simp_all add: is_reset_def is_start_def)
  have c: "index initializeEnvironments 0 = Some echoing_forest"
    "env_objectives echoing_forest = Some [crystal]"
    "index initializeEnvironments (2 - 1) = Some whispering_caves"
    "env_objectives whispering_caves = Some [exit_objective]"
    by (simp_all add: index_def initializeEnvironments_def echoing_forest_def whispering_caves_def)
  from a have t: "0 < timers ?s" by simp
  have one: "(let g = gameState ?s; g' = gameState (step ?s Timeout) in
                 timers (step ?s Timeout) = timers ?s - 1
                 \<and> score g' = score g \<and> lives g' = lives g \<and> currentLevel g' = currentLevel g
                 \<and> isPlaying g' = isPlaying g \<and> mode g' = mode g
                 \<and> playerPosition g' = playerPosition g
                 \<and> environment g' = Some whispering_caves \<and> objectives g' = [exit_objective])"
    using C1_stale_callback [OF t, where e = whispering_caves and objs = "[exit_objective]",
        THEN conjunct1] a b c
    by simp
  have two: "fst (react Timeout (step ?s (Command ''reset game''))) = Normal
      \<and> (let g' = gameState (step (step ?s (Command ''reset game'')) Timeout) in
                 currentLevel g' = 1 \<and> \<not> isPlaying g' \<and> score g' = 0 \<and> lives g' = 3
                 \<and> playerPosition g' = Vector3 0 0 0
                 \<and> environment g' = Some echoing_forest \<and> objectives g' = [crystal])"
    using C1_stale_callback [OF t, where i = "Command ''reset game''" and ?e0.0 = echoing_forest
        and ?objs0.0 = "[crystal]", THEN conjunct2, THEN conjunct1] r b c
    by simp
  have three: "(let g = gameState ?s; g' = gameState (step (step ?s (Command ''start game'')) Timeout) in
                 isPlaying g' \<and> score g' = score g \<and> lives g' = lives g
                 \<and> currentLevel g' = currentLevel g
                 \<and> playerPosition g' = Vector3 0 0 0
                 \<and> environment g' = Some whispering_caves \<and> objectives g' = [exit_objective])"
    using C1_stale_callback [OF t, where i = "Command ''start game''" and e = whispering_caves
        and objs = "[exit_objective]", THEN conjunct2, THEN conjunct2, THEN conjunct1] r a b c
    by simp
  from a b c r one two three show ?thesis by (simp add: Let_def)
qed

text \<open>
  C2. In every state reachable by commands from the initial state, \<open>lives\<close> stays in
  \<open>[0, 3]\<close>; it decreases only through hazard interaction; the command in which it reaches 0
  stops the session, and afterwards only reset and start change the world. Lives are lost
  in moves only and never exceed their value after a reset (\<open>lives_over_one_input\<close>), a hazard
  interaction that leaves none stops the session (\<open>hazard_stops_at_zero\<close>), and a stopped
  session leaves the game state alone on every command outside the always-allowed set
  (\<open>stopped_session_ignores_commands\<close>). The engine breaks the lower bound: the third fall
  into the pit ends the game with no life left, \<^verbatim>\<open>start game\<close> resumes play without
  restoring the lives (as \<^verbatim>\<open>resetGame\<close> would), and the next fall leaves \<open>lives = -1\<close>.
\<close>

theorem C2_lives_below_zero:
  "lives (gameState (run (enter_forest @ walk_into_pit @ walk_into_pit @ walk_into_pit))) = 0
   \<and> isPlaying (gameState (run (enter_forest @ walk_into_pit @ walk_into_pit @ walk_into_pit
         @ [Command ''start game''])))
   \<and> lives (gameState (run (enter_forest @ walk_into_pit @ walk_into_pit @ walk_into_pit
         @ [Command ''start game''] @ walk_into_pit))) = - 1"
  unfolding gameState_proj proj_run by code_simp

text \<open>
  C3. A move whose candidate position exceeds a half-extent of the active environment is
  rejected as a whole: the position is what it was, the edge narration is spoken and the
  danger sound is played at volume 0.5; and after any move completes, \<open>playerPosition\<close> does
  not exceed the half-extents. The rejection is as claimed (\<open>movePlayer_rejected\<close>), and a
  move that starts inside ends inside (\<open>movePlayer_stays_inside\<close>). The engine breaks the last
  part at a level transition: the crystal is taken at \<open>(3, 3)\<close>, the player walks to \<open>x = 5\<close>
  inside the forest (half-extent 5), the scheduled callback installs the caves (half-extent 4
  on \<open>x\<close>) without moving the player, and the next move is rejected with the player still
  at \<open>x = 5\<close>.
\<close>

theorem C3_beyond_half_extent:
  "(let g = gameState (run (enter_forest @ walk_to_crystal
              @ [Command ''go right'', Command ''go right'', Timeout, Command ''go forward'']))
    in isPlaying g \<and> environment g = Some whispering_caves
       \<and> playerPosition g = Vector3 5 0 3 \<and> exceeds (playerPosition g) whispering_caves)"
  unfolding gameState_proj proj_run by code_simp

text \<open>
  C4. The score changes only by 100 for each objective interaction and by 500 for each level
  completion, and only a reset sets it to 0. For one input to the engine: a reset leaves the
  score 0; a move command adds 100 for every objective that left the list and 500 for every
  level gained (the list never grows and the level never drops during a move); every other
  input, the timer callback included, leaves the score as it was.
\<close>

theorem C4_score_changes:
  "(is_reset i \<longrightarrow> score (gameState (step s i)) = 0)
   \<and> (is_move i \<longrightarrow>
        length (objectives (gameState (step s i))) \<le> length (objectives (gameState s))
        \<and> currentLevel (gameState s) \<le> currentLevel (gameState (step s i))
        \<and> score (gameState (step s i)) = score (gameState s)
            + 100 * (int (length (objectives (gameState s)))
                     - int (length (objectives (gameState (step s i)))))
            + 500 * (currentLevel (gameState (step s i)) - currentLevel (gameState s)))
   \<and> (\<not> is_reset i \<and> \<not> is_move i \<longrightarrow> score (gameState (step s i)) = score (gameState s))"
proof -
  have g: "gameState (step s i) = c_game (step_c (proj s) i)"
    by (simp add: gameState_proj [of "step s i"] proj_step del: proj_simps)
  have r: "is_reset i \<Longrightarrow> score (c_game (step_c (proj s) i)) = 0"
    by (simp add: step_c_reset initial_gameState_def)
  have m: "is_move i \<Longrightarrow> move_pass (proj s) (step_c (proj s) i)"
    by (rule step_c_move)
  have ot: "\<not> is_reset i \<Longrightarrow> \<not> is_move i \<Longrightarrow>
      score (c_game (step_c (proj s) i)) = score (c_game (proj s))"
    using step_c_other [of i "proj s"] by simp
  show ?thesis
    unfolding g using r m ot by (auto simp add: move_pass_def Let_def)
qed

theorem C4_witness:
  "is_move (Command ''go forward'')
   \<and> score (gameState (run (enter_forest @ approach_crystal))) = 0
   \<and> score (gameState (step (run (enter_forest @ approach_crystal)) (Command ''go forward''))) = 600"
proof -
  let ?s = "run (enter_forest @ approach_crystal)"
  let ?i = "Command ''go forward''"
  have m: "is_move ?i" by (simp add: is_move_def)
  have e: "length (objectives (gameState ?s)) = 1 \<and> length (objectives (gameState (step ?s ?i))) = 0
    \<and> currentLevel (gameState ?s) = 1 \<and> currentLevel (gameState (step ?s ?i)) = 2
    \<and> score (gameState ?s) = 0"
    unfolding run_snoc [symmetric] gameState_proj proj_run by code_simp
  from C4_score_changes [of ?i ?s] m e show ?thesis by simp
qed




text \<open>
  C6, as stated, has an unknown string echoed in any phase. While no game is playing the
  guard comes first and the answer to an unknown string is the refusal, not the echo.
\<close>

theorem C6_counterexample:
  "\<not> isPlaying (gameState constructor) \<and> ''dance'' \<notin> set vocabulary
   \<and> effects (snd (processCommand ''dance'' constructor))
       = [Log ''Processing: dance'', Speak ''Please start a game first.'']
   \<and> Speak ''I didn't understand \"dance\". Say \"help\" for available commands.''
       \<notin> set (effects (snd (processCommand ''dance'' constructor)))"
  by (simp add: processCommand_def constructor_def initial_gameState_def vocabulary_def
      always_allowed_def Let_def)


text \<open>
  C6, amended. While not playing, every command outside the always-allowed set (unknown
  strings included) is answered by the narration "Please start a game first." and nothing
  but the log line; while playing, every string outside the vocabulary is answered by the
  narration echoing it and by a log line. In both cases the game state, the catalog and the
  pending timers are untouched: the engine only records the string in \<^verbatim>\<open>lastCommand\<close>.
\<close>

theorem C6_refusals:
  "(\<not> isPlaying (gameState s) \<and> cmd \<notin> set always_allowed \<longrightarrow>
      processCommand cmd s =
        (Normal, s\<lparr>lastCommand := cmd,
                    effects := effects s @ [Log (''Processing: '' @ cmd),
                                            Speak ''Please start a game first.'']\<rparr>))
   \<and> (isPlaying (gameState s) \<and> cmd \<notin> set vocabulary \<longrightarrow>
      processCommand cmd s =
        (Normal, s\<lparr>lastCommand := cmd,
                    effects := effects s @ [Log (''Processing: '' @ cmd),
                      Speak (''I didn't understand \"'' @ cmd @ ''\". Say \"help\" for available commands.''),
                      Log (''Unknown command: '' @ cmd)]\<rparr>))"
  by (simp add: processCommand_def vocabulary_def handleUnknownCommand_def onLog_def speak_def
      emit_def Let_def)

theorem C6_witness:
  "\<not> isPlaying (gameState constructor) \<and> ''dance'' \<notin> set always_allowed
   \<and> gameState (snd (processCommand ''dance'' constructor)) = gameState constructor
   \<and> isPlaying (gameState (run enter_forest)) \<and> ''dance'' \<notin> set vocabulary
   \<and> gameState (snd (processCommand ''dance'' (run enter_forest))) = gameState (run enter_forest)
   \<and> last (effects (snd (processCommand ''dance'' (run enter_forest)))) = Log ''Unknown command: dance''"
proof -
  have a: "\<not> isPlaying (gameState constructor)" "''dance'' \<notin> set always_allowed"
    "''dance'' \<notin> set vocabulary"
    by (simp_all add: constructor_def initial_gameState_def always_allowed_def vocabulary_def)
  have b: "isPlaying (gameState (run enter_forest))"
    unfolding gameState_proj proj_run by code_simp
  from a b C6_refusals [of constructor "''dance''"] C6_refusals [of "run enter_forest" "''dance''"]
  show ?thesis by simp
qed

text \<open>
  C7. The objectives of the session are always among the original objectives of the active
  environment; in particular a practice session holds no objective of an earlier adventure
  level. The engine breaks this when a practice session follows an adventure session:
  \<^verbatim>\<open>startPracticeMode\<close> installs the practice room, which has no objectives, and leaves the
  list of the forest in place (\<^verbatim>\<open>startAdventureMode\<close> replaces the list).
\<close>

theorem C7_practice_keeps_adventure_objectives:
  "(let g = gameState (run [Command ''toggle mode'', Command ''start game'', Command ''stop game'',
                Command ''toggle mode'', Command ''start game''])
    in mode g = practice \<and> isPlaying g \<and> environment g = Some practice_room
       \<and> objectives g = [crystal] \<and> env_objectives practice_room = None)"
  unfolding gameState_proj proj_run by code_simp

text \<open>
  C8, as stated, has game-over fire when \<open>lives\<close> reaches 0 and the player sent back to the
  origin otherwise. The guard of the engine is \<open>lives \<le> 0\<close>: in a session started again after
  a game over the player has no life left, the next fall into the pit leaves \<open>lives = -1\<close>,
  and the engine ends the game where the player stands instead of returning the player to
  the origin.
\<close>

theorem C8_counterexample:
  "isPlaying (gameState (run second_session)) \<and> lives (gameState (run second_session)) = 0
   \<and> environment (gameState (run second_session)) = Some echoing_forest
   \<and> distance_le (step_position ''forward'' (playerPosition (gameState (run second_session))))
        (haz_position pit) (3 / 2)
   \<and> lives (gameState (run (second_session @ [Command ''go forward'']))) = - 1
   \<and> \<not> isPlaying (gameState (run (second_session @ [Command ''go forward''])))
   \<and> playerPosition (gameState (run (second_session @ [Command ''go forward'']))) = Vector3 (- 2) 0 1"
  unfolding gameState_proj proj_run by code_simp


text \<open>
  C8, amended. Every hazard interaction takes exactly one life and leaves the environment,
  and so its hazards, in place. If the decremented count is 0 or below, game-over fires: the
  session stops, the final score is narrated and the player stays where the hazard was met.
  Otherwise the player is back at the origin and the remaining lives are narrated. The
  interaction does not depend on earlier collisions, so each collision applies the penalty
  again. After an accepted move that ends within 1.5 units of a hazard of the environment, a
  life is lost (exactly one when the environment has a single hazard) and the hazards stay.
\<close>

theorem C8_hazard_interaction:
  "lives (gameState (interactWithHazard h s)) = lives (gameState s) - 1
   \<and> environment (gameState (interactWithHazard h s)) = environment (gameState s)
   \<and> environments (interactWithHazard h s) = environments s
   \<and> isPlaying (gameState (interactWithHazard h s))
       = (isPlaying (gameState s) \<and> 0 < lives (gameState s) - 1)
   \<and> playerPosition (gameState (interactWithHazard h s))
       = (if lives (gameState s) - 1 \<le> 0 then playerPosition (gameState s) else Vector3 0 0 0)
   \<and> effects (interactWithHazard h s)
       = effects s
         @ [PlaySound ''danger'' 1,
            Speak (''Oh no! You encountered '' @ haz_description h @ ''. You lost a life!'')]
         @ (if lives (gameState s) - 1 \<le> 0
            then [Speak (''Game Over! Your final score was '' @ string_of_int (score (gameState s))
                    @ ''. Better luck next time!''),
                  StopBackgroundMusic,
                  StateChange (mode (gameState s)) False (score (gameState s))
                    (lives (gameState s) - 1) (currentLevel (gameState s))]
            else [Speak (''You have '' @ string_of_int (lives (gameState s) - 1)
                    @ '' lives remaining. You've been returned to the starting position.'')])
         @ [Log (''Hazard encountered: '' @ haz_description h),
            StateChange (mode (gameState s)) (isPlaying (gameState s) \<and> 0 < lives (gameState s) - 1)
              (score (gameState s)) (lives (gameState s) - 1) (currentLevel (gameState s))]
   \<and> (isPlaying (gameState s) \<and> environment (gameState s) = Some e \<and> env_hazards e = Some hs
        \<and> \<not> exceeds (step_position d (playerPosition (gameState s))) e
        \<and> (\<exists>z\<in>set hs. distance_le (step_position d (playerPosition (gameState s))) (haz_position z) (3 / 2))
       \<longrightarrow> lives (gameState (movePlayer d s)) \<le> lives (gameState s) - 1
           \<and> (length hs = 1 \<longrightarrow> lives (gameState (movePlayer d s)) = lives (gameState s) - 1)
           \<and> environment (gameState (movePlayer d s)) = Some e)"
proof -
  have g: "gameState (interactWithHazard h s) = c_game (interactWithHazard_c (proj s))"
    by (simp add: gameState_proj [of "interactWithHazard h s"] del: proj_simps)
  have a: "lives (gameState (interactWithHazard h s)) = lives (gameState s) - 1"
    "environment (gameState (interactWithHazard h s)) = environment (gameState s)"
    "isPlaying (gameState (interactWithHazard h s))
       = (isPlaying (gameState s) \<and> 0 < lives (gameState s) - 1)"
    "playerPosition (gameState (interactWithHazard h s))
       = (if lives (gameState s) - 1 \<le> 0 then playerPosition (gameState s) else Vector3 0 0 0)"
    unfolding g by (auto simp add: interactWithHazard_c_game Let_def)
  have b: "environments (interactWithHazard h s) = environments s"
  proof -
    have "environments (interactWithHazard h s) = c_environments (proj (interactWithHazard h s))"
      by (simp only: proj_simps)
    then show ?thesis by simp
  qed
  have e: "effects (interactWithHazard h s)
       = effects s
         @ [PlaySound ''danger'' 1,
            Speak (''Oh no! You encountered '' @ haz_description h @ ''. You lost a life!'')]
         @ (if lives (gameState s) - 1 \<le> 0
            then [Speak (''Game Over! Your final score was '' @ string_of_int (score (gameState s))
                    @ ''. Better luck next time!''),
                  StopBackgroundMusic,
                  StateChange (mode (gameState s)) False (score (gameState s))
                    (lives (gameState s) - 1) (currentLevel (gameState s))]
            else [Speak (''You have '' @ string_of_int (lives (gameState s) - 1)
                    @ '' lives remaining. You've been returned to the starting position.'')])
         @ [Log (''Hazard encountered: '' @ haz_description h),
            StateChange (mode (gameState s)) (isPlaying (gameState s) \<and> 0 < lives (gameState s) - 1)
              (score (gameState s)) (lives (gameState s) - 1) (currentLevel (gameState s))]"
    by (simp add: interactWithHazard_def gameOver_def Let_def)
  have gm: "gameState (movePlayer d s) = c_game (movePlayer_c d (proj s))"
    by (simp add: gameState_proj [of "movePlayer d s"] del: proj_simps)
  have m: "lives (gameState (movePlayer d s)) \<le> lives (gameState s) - 1
           \<and> (length hs = 1 \<longrightarrow> lives (gameState (movePlayer d s)) = lives (gameState s) - 1)
           \<and> environment (gameState (movePlayer d s)) = Some e"
    if "isPlaying (gameState s) \<and> environment (gameState s) = Some e \<and> env_hazards e = Some hs
        \<and> \<not> exceeds (step_position d (playerPosition (gameState s))) e
        \<and> (\<exists>z\<in>set hs. distance_le (step_position d (playerPosition (gameState s))) (haz_position z) (3 / 2))"
    unfolding gm using that movePlayer_c_hazard [of "proj s" e hs d] by simp
  from a b e m show ?thesis by blast
qed

theorem C8_witness:
  "isPlaying (gameState (run (enter_forest @ [Command ''go left'', Command ''go left''])))
   \<and> lives (gameState (run (enter_forest @ [Command ''go left'', Command ''go left'']))) = 3
   \<and> distance_le (step_position ''forward''
         (playerPosition (gameState (run (enter_forest @ [Command ''go left'', Command ''go left''])))))
        (haz_position pit) (3 / 2)
   \<and> lives (gameState (movePlayer ''forward''
         (run (enter_forest @ [Command ''go left'', Command ''go left''])))) = 2
   \<and> environment (gameState (movePlayer ''forward''
         (run (enter_forest @ [Command ''go left'', Command ''go left''])))) = Some echoing_forest"
proof -
  let ?s = "run (enter_forest @ [Command ''go left'', Command ''go left''])"
  have a: "isPlaying (gameState ?s) \<and> lives (gameState ?s) = 3
    \<and> environment (gameState ?s) = Some echoing_forest
    \<and> \<not> exceeds (step_position ''forward'' (playerPosition (gameState ?s))) echoing_forest
    \<and> distance_le (step_position ''forward'' (playerPosition (gameState ?s))) (haz_position pit) (3 / 2)"
    unfolding gameState_proj proj_run by code_simp
  have b: "env_hazards echoing_forest = Some [pit]"
    by (simp add: echoing_forest_def)
  from a have c: "\<exists>z\<in>set [pit]. distance_le (step_position ''forward'' (playerPosition (gameState ?s)))
      (haz_position z) (3 / 2)"
    by simp
  from C8_hazard_interaction [where s = ?s and e = echoing_forest and hs = "[pit]" and d = "''forward''"]
    a b c
  have "lives (gameState (movePlayer ''forward'' ?s)) = lives (gameState ?s) - 1
    \<and> environment (gameState (movePlayer ''forward'' ?s)) = Some echoing_forest"
    by simp
  with a show ?thesis by simp
qed

text \<open>
  C9. \<^verbatim>\<open>completeLevel\<close> raises \<open>currentLevel\<close> by exactly 1. It invokes \<^verbatim>\<open>gameWon\<close> (the
  session stops, and the victory narration carries the score that includes the 500 just
  awarded) exactly when the incremented level exceeds the number of catalog levels; otherwise
  the session keeps playing and one transition is scheduled. Over one input the level either
  stays, or a reset puts it back to 1, or a move made while playing raises it by 1, and then
  that move emptied a list of objectives that was not empty: the level rises only on level
  completion.
\<close>

theorem C9_level_progress:
  "currentLevel (gameState (completeLevel s)) = currentLevel (gameState s) + 1
   \<and> isPlaying (gameState (completeLevel s))
       = (isPlaying (gameState s) \<and> currentLevel (gameState s) + 1 \<le> int (length (environments s)))
   \<and> timers (completeLevel s)
       = (if currentLevel (gameState s) + 1 \<le> int (length (environments s))
          then Suc (timers s) else timers s)
   \<and> effects (completeLevel s)
       = effects s
         @ [PlaySound ''success'' 1,
            Speak (''Level '' @ string_of_int (currentLevel (gameState s)) @ '' completed! Well done!'')]
         @ (if currentLevel (gameState s) + 1 \<le> int (length (environments s)) then []
            else [Speak (''Congratulations! You've completed all levels! Your final score is ''
                    @ string_of_int (score (gameState s) + 500) @ ''. You are a true EchoVerse champion!''),
                  StopBackgroundMusic,
                  StateChange (mode (gameState s)) False (score (gameState s) + 500)
                    (lives (gameState s)) (currentLevel (gameState s) + 1)])
         @ [StateChange (mode (gameState s))
              (isPlaying (gameState s) \<and> currentLevel (gameState s) + 1 \<le> int (length (environments s)))
              (score (gameState s) + 500) (lives (gameState s)) (currentLevel (gameState s) + 1)]
   \<and> (currentLevel (gameState (step s i)) = currentLevel (gameState s)
        \<or> is_reset i \<and> currentLevel (gameState (step s i)) = 1
        \<or> is_move i \<and> isPlaying (gameState s)
           \<and> currentLevel (gameState (step s i)) = currentLevel (gameState s) + 1
           \<and> objectives (gameState s) \<noteq> [] \<and> objectives (gameState (step s i)) = [])"
proof -
  have a: "currentLevel (gameState (completeLevel s)) = currentLevel (gameState s) + 1"
    and b: "isPlaying (gameState (completeLevel s))
       = (isPlaying (gameState s) \<and> currentLevel (gameState s) + 1 \<le> int (length (environments s)))"
    and t: "timers (completeLevel s)
       = (if currentLevel (gameState s) + 1 \<le> int (length (environments s))
          then Suc (timers s) else timers s)"
    unfolding gameState_proj [of "completeLevel s"] timers_proj [of "completeLevel s"]
    by (simp_all add: completeLevel_c_game del: proj_simps) simp_all
  have e: "effects (completeLevel s)
       = effects s
         @ [PlaySound ''success'' 1,
            Speak (''Level '' @ string_of_int (currentLevel (gameState s)) @ '' completed! Well done!'')]
         @ (if currentLevel (gameState s) + 1 \<le> int (length (environments s)) then []
            else [Speak (''Congratulations! You've completed all levels! Your final score is ''
                    @ string_of_int (score (gameState s) + 500) @ ''. You are a true EchoVerse champion!''),
                  StopBackgroundMusic,
                  StateChange (mode (gameState s)) False (score (gameState s) + 500)
                    (lives (gameState s)) (currentLevel (gameState s) + 1)])
         @ [StateChange (mode (gameState s))
              (isPlaying (gameState s) \<and> currentLevel (gameState s) + 1 \<le> int (length (environments s)))
              (score (gameState s) + 500) (lives (gameState s)) (currentLevel (gameState s) + 1)]"
    by (simp add: completeLevel_def gameWon_def Let_def)
  have g: "gameState (step s i) = c_game (step_c (proj s) i)"
    by (simp add: gameState_proj [of "step s i"] proj_step del: proj_simps)
  have l: "currentLevel (gameState (step s i)) = currentLevel (gameState s)
        \<or> is_reset i \<and> currentLevel (gameState (step s i)) = 1
        \<or> is_move i \<and> isPlaying (gameState s)
           \<and> currentLevel (gameState (step s i)) = currentLevel (gameState s) + 1
           \<and> objectives (gameState s) \<noteq> [] \<and> objectives (gameState (step s i)) = []"
  proof (cases "is_reset i")
    case True
    then show ?thesis unfolding g by (simp add: step_c_reset initial_gameState_def)
  next
    case False
    show ?thesis
    proof (cases "is_move i")
      case True
      show ?thesis
      proof (cases "isPlaying (gameState s)")
        case True
        with step_c_move [OF \<open>is_move i\<close>, of "proj s"] \<open>is_move i\<close> show ?thesis
          unfolding g by (auto simp add: move_pass_def Let_def)
      next
        case False
        with step_c_idle_move [OF \<open>is_move i\<close>, of "proj s"] show ?thesis
          unfolding g by simp
      qed
    next
      case nm: False
      with step_c_other [of i "proj s"] \<open>\<not> is_reset i\<close> show ?thesis
        unfolding g by simp
    qed
  qed
  from a b t e l show ?thesis by (intro conjI)
qed

theorem C9_witness:
  "is_move (Command ''go forward'') \<and> isPlaying (gameState (run approach_exit))
   \<and> currentLevel (gameState (run approach_exit)) = 2
   \<and> objectives (gameState (run approach_exit)) = [exit_objective]
   \<and> currentLevel (gameState (step (run approach_exit) (Command ''go forward''))) = 3
   \<and> objectives (gameState (step (run approach_exit) (Command ''go forward''))) = []
   \<and> \<not> isPlaying (gameState (step (run approach_exit) (Command ''go forward'')))
   \<and> score (gameState (step (run approach_exit) (Command ''go forward''))) = 1200"
proof -
  let ?s = "run approach_exit"
  let ?i = "Command ''go forward''"
  have e: "isPlaying (gameState ?s) \<and> currentLevel (gameState ?s) = 2
    \<and> objectives (gameState ?s) = [exit_objective]
    \<and> currentLevel (gameState (step ?s ?i)) = 3
    \<and> \<not> isPlaying (gameState (step ?s ?i)) \<and> score (gameState (step ?s ?i)) = 1200"
    unfolding run_snoc [symmetric] gameState_proj proj_run by code_simp
  have m: "is_move ?i" "\<not> is_reset ?i" by (simp_all add: is_move_def is_reset_def)
  from C9_level_progress [of ?s ?i] e m
  have "objectives (gameState (step ?s ?i)) = []" by simp
  with e m show ?thesis by simp
qed






end
